theory Spec2Isabelle
  imports Main
begin

section \<open>DataFrameMapper of sklearn-pandas: a shallow embedding\<close>

text \<open>
  The development follows \<^verbatim>\<open>sklearn_pandas/dataframe_mapper.py\<close>. Python attributes
  whose names end in an underscore (\<^verbatim>\<open>feature_widths_\<close>, \<^verbatim>\<open>feature_indices_\<close>,
  \<^verbatim>\<open>X_n_features_\<close>, \<^verbatim>\<open>X_features_\<close>, \<^verbatim>\<open>X_columns_\<close>) and the functions whose
  names start with one (\<^verbatim>\<open>_handle_feature\<close>, \<^verbatim>\<open>_build_transformer\<close>,
  \<^verbatim>\<open>_get_col_subset\<close>) lose that underscore here, since such names are not
  admissible for constants.
\<close>

subsection \<open>Exceptions\<close>

text \<open>
  Every exception the code can raise is a value. \<open>TransformerError\<close> stands for
  whatever an externally supplied transformer raises on its own account.
\<close>

datatype error =
    KeyError
  | ValueError
  | AssertionError
  | IndexError
  | TypeError
  | AttributeError
  | TransformerError nat

subsection \<open>Arrays\<close>

text \<open>
  A numpy array is its shape together with its elements in row-major order; an array
  is well formed when the number of elements is the product of the shape. A scipy sparse
  matrix always has two dimensions; its content is kept as the row-major list of all its
  entries, the representation (sparse or dense) being the constructor. Sparse arrays of
  one dimension, which later versions of scipy offer, are outside this model. A
  dimension is a natural number; numpy keeps it in a signed 64-bit integer, so it is
  below \<open>2 ^ 63\<close>.
\<close>

datatype 'a ndarray = NDArray (nd_shape: "nat list") (nd_data: "'a list")

datatype 'a spmatrix = SpMatrix (sp_rows: nat) (sp_cols: nat) (sp_data: "'a list")

datatype 'a array = Dense "'a ndarray" | Sparse "'a spmatrix"

fun shape :: "'a array \<Rightarrow> nat list" where
  "shape (Dense a) = nd_shape a"
| "shape (Sparse m) = [sp_rows m, sp_cols m]"

fun issparse :: "'a array \<Rightarrow> bool" where
  "issparse (Dense a) = False"
| "issparse (Sparse m) = True"

fun wf_array :: "'a array \<Rightarrow> bool" where
  "wf_array (Dense a) = (length (nd_data a) = prod_list (nd_shape a))"
| "wf_array (Sparse m) = (length (sp_data m) = sp_rows m * sp_cols m)"

text \<open>Python's \<^verbatim>\<open>t[i]\<close> on a tuple, for a non-negative index.\<close>

definition tuple_index :: "'b list \<Rightarrow> nat \<Rightarrow> error + 'b" where
  "tuple_index t i = (if i < length t then Inr (t ! i) else Inl IndexError)"

text \<open>
  \<^verbatim>\<open>np.array([a])\<close> for one numpy array \<open>a\<close>: a new leading axis of length 1.
\<close>

definition np_array_singleton :: "'a ndarray \<Rightarrow> 'a ndarray" where
  "np_array_singleton a = NDArray (1 # nd_shape a) (nd_data a)"

text \<open>
  \<^verbatim>\<open>a.T\<close> reverses the axes. \<open>unravel s k\<close> is the multi-index of the flat position
  \<open>k\<close> in an array of shape \<open>s\<close>; \<open>ravel s is\<close> is the flat position of a multi-index.
\<close>

fun unravel :: "nat list \<Rightarrow> nat \<Rightarrow> nat list" where
  "unravel [] k = []"
| "unravel (d # ds) k = (k div prod_list ds) # unravel ds (k mod prod_list ds)"

fun ravel :: "nat list \<Rightarrow> nat list \<Rightarrow> nat" where
  "ravel (d # ds) (i # is) = i * prod_list ds + ravel ds is"
| "ravel _ _ = 0"

definition T :: "'a ndarray \<Rightarrow> 'a ndarray" where
  "T a = NDArray (rev (nd_shape a))
     (map (\<lambda>k. nd_data a ! ravel (nd_shape a) (rev (unravel (rev (nd_shape a)) k)))
        [0 ..< prod_list (nd_shape a)])"

subsection \<open>The shape normaliser\<close>

text \<open>
  \<^verbatim>\<open>
  def _handle_feature(fea):
      if len(fea.shape) == 1:
          fea = np.array([fea]).T
      return fea
  \<close>
  A sparse matrix has a shape of length 2, so only a numpy array can take the branch.
\<close>

fun handle_feature :: "'a array \<Rightarrow> 'a array" where
  "handle_feature (Dense a) =
     (if length (nd_shape a) = 1 then Dense (T (np_array_singleton a)) else Dense a)"
| "handle_feature (Sparse m) = Sparse m"

subsection \<open>Tables\<close>

text \<open>
  A pandas frame is its number of rows and its labelled columns, in order. A label is a
  string, or a position when pandas had to invent one (the column of an unnamed series
  turned into a frame). A series is a name, possibly absent, and its values.
\<close>

datatype label = Name string | Position nat

record 'a dataframe =
  df_nrows :: nat
  df_columns :: "(label \<times> 'a list) list"

record 'a series =
  series_name :: "string option"
  series_values :: "'a list"

text \<open>\<^verbatim>\<open>y.to_frame()\<close>: the frame of the one column the series is.\<close>

definition to_frame :: "'a series \<Rightarrow> 'a dataframe" where
  "to_frame s =
     \<lparr>df_nrows = length (series_values s),
      df_columns = [(case series_name s of None \<Rightarrow> Position 0 | Some n \<Rightarrow> Name n,
                  series_values s)]\<rparr>"

text \<open>\<^verbatim>\<open>df.values\<close>: the cells of the frame as a two-dimensional array, row by row.\<close>

definition frame_values :: "'a dataframe \<Rightarrow> 'a ndarray" where
  "frame_values df =
     NDArray [df_nrows df, length (df_columns df)]
       (concat (map (\<lambda>i. map (\<lambda>c. snd c ! i) (df_columns df)) [0 ..< df_nrows df]))"

definition labelled :: "string \<Rightarrow> (label \<times> 'a list) list \<Rightarrow> (label \<times> 'a list) list" where
  "labelled c cs = filter (\<lambda>col. fst col = Name c) cs"

text \<open>
  \<^verbatim>\<open>X[c].values\<close> for one label: KeyError when no column has the label, the vector of
  the column when one has, and the matrix of all of them when the label is repeated.
\<close>

definition getitem_label_values :: "'a dataframe \<Rightarrow> string \<Rightarrow> error + 'a ndarray" where
  "getitem_label_values X c =
     (case labelled c (df_columns X) of
        [] \<Rightarrow> Inl KeyError
      | [col] \<Rightarrow> Inr (NDArray [df_nrows X] (snd col))
      | cs \<Rightarrow> Inr (frame_values (X\<lparr>df_columns := cs\<rparr>)))"

text \<open>
  \<^verbatim>\<open>X[cols].values\<close> for a list of labels: KeyError when some label names no column,
  otherwise the matrix of the named columns in the order of the list.
\<close>

definition getitem_list_values :: "'a dataframe \<Rightarrow> string list \<Rightarrow> error + 'a ndarray" where
  "getitem_list_values X cols =
     (if list_all (\<lambda>c. labelled c (df_columns X) \<noteq> []) cols
      then Inr (frame_values (X\<lparr>df_columns := concat (map (\<lambda>c. labelled c (df_columns X)) cols)\<rparr>))
      else Inl KeyError)"

text \<open>
  The first argument of \<^verbatim>\<open>fit\<close> and \<^verbatim>\<open>transform\<close>: a frame, a \<^verbatim>\<open>DataWrapper\<close>
  around a frame, or a list of rows. A row is a series indexed by strings, kept as an
  association list; \<^verbatim>\<open>x[cols]\<close> on a row keeps the entries named by \<open>cols\<close>, and
  \<^verbatim>\<open>pd.DataFrame\<close> of the selected rows is the frame with one column per selected
  label (no column at all when there is no row). Rows and selector lists are taken to
  have pairwise distinct labels.
\<close>

type_synonym 'a row = "(string \<times> 'a) list"

datatype 'a table =
    DataFrame "'a dataframe"
  | DataWrapper "'a dataframe"
  | RowList "'a row list"

definition row_getitem :: "'a row \<Rightarrow> string list \<Rightarrow> error + 'a list" where
  "row_getitem x cols =
     (if list_all (\<lambda>c. map_of x c \<noteq> None) cols
      then Inr (map (\<lambda>c. the (map_of x c)) cols)
      else Inl KeyError)"

fun rows_getitem :: "'a row list \<Rightarrow> string list \<Rightarrow> error + 'a list list" where
  "rows_getitem [] cols = Inr []"
| "rows_getitem (x # xs) cols =
     (case row_getitem x cols of
        Inl e \<Rightarrow> Inl e
      | Inr r \<Rightarrow> (case rows_getitem xs cols of Inl e \<Rightarrow> Inl e | Inr rs \<Rightarrow> Inr (r # rs)))"

definition pd_DataFrame :: "string list \<Rightarrow> 'a list list \<Rightarrow> 'a dataframe" where
  "pd_DataFrame cols rs =
     \<lparr>df_nrows = length rs,
      df_columns = (if rs = [] then []
                 else map (\<lambda>j. (Name (cols ! j), map (\<lambda>r. r ! j) rs)) [0 ..< length cols])\<rparr>"

subsection \<open>Selectors and the selector resolver\<close>

datatype selector = Column string | ColumnList "string list"

text \<open>
  \<^verbatim>\<open>
  def _get_col_subset(self, X, cols):
      return_vector = False
      if isinstance(cols, string_types):
          return_vector = True
          cols = [cols]
      if isinstance(X, list):
          X = [x[cols] for x in X]
          X = pd.DataFrame(X)
      elif isinstance(X, DataWrapper):
          X = X.df
      if return_vector:
          t = X[cols[0]].values
      else:
          t = X[cols].values
      return t
  \<close>
\<close>

definition get_col_subset :: "'a table \<Rightarrow> selector \<Rightarrow> error + 'a ndarray" where
  "get_col_subset X sel =
     (let return_vector = (case sel of Column c \<Rightarrow> True | ColumnList cs \<Rightarrow> False);
          cols = (case sel of Column c \<Rightarrow> [c] | ColumnList cs \<Rightarrow> cs)
      in case (case X of
                 RowList xs \<Rightarrow>
                   (case rows_getitem xs cols of
                      Inl e \<Rightarrow> Inl e
                    | Inr rs \<Rightarrow> Inr (pd_DataFrame cols rs))
               | DataWrapper df \<Rightarrow> Inr df
               | DataFrame df \<Rightarrow> Inr df) of
           Inl e \<Rightarrow> Inl e
         | Inr X' \<Rightarrow>
             if return_vector then getitem_label_values X' (cols ! 0)
             else getitem_list_values X' cols)"

subsection \<open>Transformers\<close>

text \<open>
  A transformer is an object supplied from outside, with a state of its own and the two
  methods \<^verbatim>\<open>fit\<close> and \<^verbatim>\<open>transform\<close>. Either method may change the state and may
  raise; \<^verbatim>\<open>transform\<close> returns a numpy array or a sparse matrix. Each feature owns its
  transformer: no transformer object is shared between two features.
\<close>

record ('s, 'a) transformer =
  t_state :: 's
  t_fit :: "'s \<Rightarrow> 'a array \<Rightarrow> 's \<times> error option"
  t_transform :: "'s \<Rightarrow> 'a array \<Rightarrow> 's \<times> (error + 'a array)"

text \<open>\<^verbatim>\<open>t.fit(Xt)\<close> and \<^verbatim>\<open>t.transform(Xt)\<close>: the object afterwards, and the outcome.\<close>

definition call_fit ::
  "('s, 'a) transformer \<Rightarrow> 'a array \<Rightarrow> ('s, 'a) transformer \<times> error option" where
  "call_fit t Xt = (case t_fit t (t_state t) Xt of (s', r) \<Rightarrow> (t\<lparr>t_state := s'\<rparr>, r))"

definition call_transform ::
  "('s, 'a) transformer \<Rightarrow> 'a array \<Rightarrow> ('s, 'a) transformer \<times> (error + 'a array)" where
  "call_transform t Xt =
     (case t_transform t (t_state t) Xt of (s', r) \<Rightarrow> (t\<lparr>t_state := s'\<rparr>, r))"

text \<open>
  What a caller may write for the transformer of a feature: nothing, one transformer, or
  a list of transformers.
  \<^verbatim>\<open>
  def _build_transformer(transformers):
      if isinstance(transformers, list):
          transformers = make_transformer_pipeline(*transformers)
      return transformers
  \<close>
  \<^verbatim>\<open>make_transformer_pipeline\<close> belongs to another module; it is a parameter here, and
  it may raise.
\<close>

datatype ('s, 'a) transformers =
    NoTransformer
  | Single "('s, 'a) transformer"
  | TransformerList "('s, 'a) transformer list"

type_synonym ('s, 'a) make_pipeline =
  "('s, 'a) transformer list \<Rightarrow> error + ('s, 'a) transformer"

definition build_transformer ::
  "('s, 'a) make_pipeline \<Rightarrow> ('s, 'a) transformers \<Rightarrow> error + ('s, 'a) transformer option"
where
  "build_transformer make_transformer_pipeline transformers =
     (case transformers of
        TransformerList ts \<Rightarrow>
          (case make_transformer_pipeline ts of Inl e \<Rightarrow> Inl e | Inr p \<Rightarrow> Inr (Some p))
      | Single t \<Rightarrow> Inr (Some t)
      | NoTransformer \<Rightarrow> Inr None)"

subsection \<open>The mapper object\<close>

text \<open>
  A feature is a selector and an optional transformer. A Python object holds an
  attribute or does not; reading an attribute it does not hold raises AttributeError.
  The mapper has the four attributes \<^verbatim>\<open>features\<close>, \<^verbatim>\<open>feature_widths_\<close> (\<^verbatim>\<open>None\<close>
  or the array of widths), \<^verbatim>\<open>y_feature\<close> (\<^verbatim>\<open>None\<close> or a feature) and \<^verbatim>\<open>sparse\<close>.
\<close>

type_synonym ('s, 'a) feature = "selector \<times> ('s, 'a) transformer option"

datatype 'x attr = Absent | Present 'x

record ('s, 'a) mapper =
  features :: "('s, 'a) feature list attr"
  feature_widths :: "nat list option attr"
  y_feature :: "('s, 'a) feature option attr"
  sparse :: "bool attr"

text \<open>The object before any attribute is assigned, as unpickling creates it.\<close>

definition blank :: "('s, 'a) mapper" where
  "blank = \<lparr>features = Absent, feature_widths = Absent, y_feature = Absent, sparse = Absent\<rparr>"






subsection \<open>Restoring a persisted mapper\<close>

text \<open>
  The persisted state is a dictionary; each of its keys is present or not. Besides
  \<^verbatim>\<open>'features'\<close> and \<^verbatim>\<open>'sparse'\<close> it may hold the widths and the target feature of
  the mapper that was saved.
  \<^verbatim>\<open>
  def __setstate__(self, state):
      self.features = [(columns, _build_transformer(transformers))
                       for (columns, transformers) in state['features']]
      self.sparse = state.get('sparse', False)
  \<close>
\<close>

record ('s, 'a) persisted_state =
  st_features :: "(selector \<times> ('s, 'a) transformers) list option"
  st_sparse :: "bool option"
  st_feature_widths :: "nat list option option"
  st_y_feature :: "(selector \<times> ('s, 'a) transformers) option option"

fun build_features ::
  "('s, 'a) make_pipeline \<Rightarrow> (selector \<times> ('s, 'a) transformers) list
     \<Rightarrow> error + ('s, 'a) feature list" where
  "build_features mk [] = Inr []"
| "build_features mk ((columns, transformers) # fs) =
     (case build_transformer mk transformers of
        Inl e \<Rightarrow> Inl e
      | Inr t \<Rightarrow>
          (case build_features mk fs of
             Inl e \<Rightarrow> Inl e
           | Inr fs' \<Rightarrow> Inr ((columns, t) # fs')))"

definition setstate ::
  "('s, 'a) make_pipeline \<Rightarrow> ('s, 'a) mapper \<Rightarrow> ('s, 'a) persisted_state
     \<Rightarrow> ('s, 'a) mapper \<times> (error + unit)" where
  "setstate mk self state =
     (case st_features state of
        None \<Rightarrow> (self, Inl KeyError)
      | Some fs \<Rightarrow>
          (case build_features mk fs of
             Inl e \<Rightarrow> (self, Inl e)
           | Inr fs' \<Rightarrow>
               (self\<lparr>features := Present fs',
                     sparse := Present (case st_sparse state of None \<Rightarrow> False | Some b \<Rightarrow> b)\<rparr>,
                Inr ())))"

subsection \<open>The provenance index\<close>

text \<open>
  The widths array is an array of signed 64-bit integers (\<^verbatim>\<open>int64\<close>), each entry a
  dimension. \<^verbatim>\<open>np.cumsum\<close> and \<^verbatim>\<open>np.sum\<close> add in that type, and the addition wraps
  around silently: \<open>int64 x\<close> is the value of the mathematical integer \<open>x\<close> after it
  has been reduced to 64 bits, two's complement.
\<close>

definition int64 :: "int \<Rightarrow> int" where
  "int64 x = (x + 2 ^ 63) mod 2 ^ 64 - 2 ^ 63"

fun cumsum_from :: "int \<Rightarrow> nat list \<Rightarrow> int list" where
  "cumsum_from acc [] = []"
| "cumsum_from acc (x # xs) = int64 (acc + int x) # cumsum_from (int64 (acc + int x)) xs"

definition np_cumsum :: "nat list \<Rightarrow> int list" where
  "np_cumsum xs = cumsum_from 0 xs"

definition np_sum :: "nat list \<Rightarrow> int" where
  "np_sum xs = foldl (\<lambda>a x. int64 (a + int x)) 0 xs"

text \<open>
  \<^verbatim>\<open>
  def feature_indices_(self):
      return np.cumsum([0] + list(self.feature_widths_))
  \<close>
  \<^verbatim>\<open>list(None)\<close> raises TypeError.
\<close>

definition feature_indices :: "('s, 'a) mapper \<Rightarrow> error + int list" where
  "feature_indices self =
     (case feature_widths self of
        Absent \<Rightarrow> Inl AttributeError
      | Present None \<Rightarrow> Inl TypeError
      | Present (Some ws) \<Rightarrow> Inr (np_cumsum ([0] @ ws)))"

text \<open>
  \<^verbatim>\<open>
  def X_n_features_(self):
      return np.sum(self.feature_widths_)
  \<close>
  \<^verbatim>\<open>np.sum(None)\<close> is \<^verbatim>\<open>None\<close>.
\<close>

definition X_n_features :: "('s, 'a) mapper \<Rightarrow> error + int option" where
  "X_n_features self =
     (case feature_widths self of
        Absent \<Rightarrow> Inl AttributeError
      | Present None \<Rightarrow> Inr None
      | Present (Some ws) \<Rightarrow> Inr (Some (np_sum ws)))"

text \<open>
  \<^verbatim>\<open>
  def X_features_(self):
      rs = []
      for width, feature in zip(self.feature_widths_, self.features):
          for _ in range(width):
              rs.append(feature)
      return np.array(rs, dtype=object)
  \<close>
  The result is kept as the list \<open>rs\<close> of its rows, each row a feature (a pair).
  Both attributes are read before \<^verbatim>\<open>zip\<close> is called; \<^verbatim>\<open>zip\<close> raises TypeError on
  \<^verbatim>\<open>None\<close> and stops at the shorter argument.
\<close>

fun repeat_features :: "(nat \<times> 'f) list \<Rightarrow> 'f list \<Rightarrow> 'f list" where
  "repeat_features [] rs = rs"
| "repeat_features ((width, feature) # wfs) rs =
     repeat_features wfs (rs @ replicate width feature)"

definition X_features :: "('s, 'a) mapper \<Rightarrow> error + ('s, 'a) feature list" where
  "X_features self =
     (case feature_widths self of
        Absent \<Rightarrow> Inl AttributeError
      | Present widths \<Rightarrow>
          (case features self of
             Absent \<Rightarrow> Inl AttributeError
           | Present fs \<Rightarrow>
               (case widths of
                  None \<Rightarrow> Inl TypeError
                | Some ws \<Rightarrow> Inr (repeat_features (zip ws fs) []))))"

text \<open>
  \<^verbatim>\<open>
  def X_columns_(self):
      return self.X_features_[:,0]
  \<close>
  \<^verbatim>\<open>np.array(rs, dtype=object)\<close> is two-dimensional, one row per member of \<open>rs\<close>,
  when \<open>rs\<close> has a member; of an empty \<open>rs\<close> it is the one-dimensional empty array,
  and the index \<^verbatim>\<open>[:,0]\<close> with two positions raises IndexError on it.
\<close>

definition X_columns :: "('s, 'a) mapper \<Rightarrow> error + selector list" where
  "X_columns self =
     (case X_features self of
        Inl e \<Rightarrow> Inl e
      | Inr rs \<Rightarrow> if rs = [] then Inl IndexError else Inr (map fst rs))"

subsection \<open>The target container\<close>

text \<open>
  The second argument of \<^verbatim>\<open>fit\<close> and \<^verbatim>\<open>extract_y\<close>: \<^verbatim>\<open>None\<close>, a frame, a series,
  or anything else. Both methods choose the frame to read the target from in the same
  way:
  \<^verbatim>\<open>
  if isinstance(y, pd.DataFrame):
      df = y
  elif isinstance(y, pd.Series):
      df = y.to_frame()
  else:
      assert isinstance(X, pd.DataFrame)
      df = X
  \<close>
\<close>

datatype 'a target =
    TargetNone
  | TargetFrame "'a dataframe"
  | TargetSeries "'a series"
  | TargetOther

definition target_frame :: "'a table \<Rightarrow> 'a target \<Rightarrow> error + 'a dataframe" where
  "target_frame X y =
     (case y of
        TargetFrame df \<Rightarrow> Inr df
      | TargetSeries s \<Rightarrow> Inr (to_frame s)
      | _ \<Rightarrow> (case X of DataFrame df \<Rightarrow> Inr df | _ \<Rightarrow> Inl AssertionError))"

subsection \<open>Fit\<close>

text \<open>
  One turn of the loop of \<^verbatim>\<open>fit\<close>, for the feature \<open>(columns, transformers)\<close>: the
  feature afterwards (its transformer may have changed state) and the width measured,
  or the exception raised.
  \<^verbatim>\<open>
  Xt = self._get_col_subset(X, columns)
  if transformers is not None:
      transformers.fit(Xt)
      Xt = transformers.transform(Xt)
  feature_widths.append(_handle_feature(Xt).shape[1])
  \<close>
\<close>

fun fit_feature ::
  "'a table \<Rightarrow> ('s, 'a) feature \<Rightarrow> ('s, 'a) feature \<times> (error + nat)" where
  "fit_feature X (columns, transformers) =
     (case get_col_subset X columns of
        Inl e \<Rightarrow> ((columns, transformers), Inl e)
      | Inr Xt \<Rightarrow>
          (case transformers of
             None \<Rightarrow> ((columns, None), tuple_index (shape (handle_feature (Dense Xt))) 1)
           | Some t \<Rightarrow>
               (case call_fit t (Dense Xt) of
                  (t1, Some e) \<Rightarrow> ((columns, Some t1), Inl e)
                | (t1, None) \<Rightarrow>
                    (case call_transform t1 (Dense Xt) of
                       (t2, Inl e) \<Rightarrow> ((columns, Some t2), Inl e)
                     | (t2, Inr Xt') \<Rightarrow>
                         ((columns, Some t2),
                          tuple_index (shape (handle_feature Xt')) 1)))))"

text \<open>
  The loop over \<^verbatim>\<open>self.features\<close>; \<open>widths\<close> is the local list \<^verbatim>\<open>feature_widths\<close>
  the loop appends to.
  It returns the features as the loop leaves them, also when it stops at an exception.
\<close>

fun fit_features ::
  "'a table \<Rightarrow> ('s, 'a) feature list \<Rightarrow> nat list
     \<Rightarrow> ('s, 'a) feature list \<times> (error + nat list)" where
  "fit_features X [] widths = ([], Inr widths)"
| "fit_features X (f # fs) widths =
     (case fit_feature X f of
        (f', Inl e) \<Rightarrow> (f' # fs, Inl e)
      | (f', Inr w) \<Rightarrow>
          (case fit_features X fs (widths @ [w]) of
             (fs', r) \<Rightarrow> (f' # fs', r)))"

text \<open>
  \<^verbatim>\<open>
  def fit(self, X, y=None):
      feature_widths = []
      for columns, transformers in self.features:
          ... (the loop above)
      self.feature_widths_ = np.array(feature_widths)

      if self.y_feature is not None:
          ... (df chosen as in target_frame)
          y_columns, y_transformers = self.y_feature
          if y_transformers is not None:
              y_transformers.fit(self._get_col_subset(df, y_columns))
      return self
  \<close>
  The result is the mapper as the call leaves it, and the exception if one was raised.
\<close>

definition fit ::
  "('s, 'a) mapper \<Rightarrow> 'a table \<Rightarrow> 'a target \<Rightarrow> ('s, 'a) mapper \<times> (error + unit)" where
  "fit self X y =
     (case features self of
        Absent \<Rightarrow> (self, Inl AttributeError)
      | Present fs \<Rightarrow>
          (case fit_features X fs [] of
             (fs', Inl e) \<Rightarrow> (self\<lparr>features := Present fs'\<rparr>, Inl e)
           | (fs', Inr ws) \<Rightarrow>
               (let self1 = self\<lparr>features := Present fs', feature_widths := Present (Some ws)\<rparr>
                in case y_feature self1 of
                     Absent \<Rightarrow> (self1, Inl AttributeError)
                   | Present None \<Rightarrow> (self1, Inr ())
                   | Present (Some (y_columns, y_transformers)) \<Rightarrow>
                       (case target_frame X y of
                          Inl e \<Rightarrow> (self1, Inl e)
                        | Inr df \<Rightarrow>
                            (case y_transformers of
                               None \<Rightarrow> (self1, Inr ())
                             | Some t \<Rightarrow>
                                 (case get_col_subset (DataFrame df) y_columns of
                                    Inl e \<Rightarrow> (self1, Inl e)
                                  | Inr yt \<Rightarrow>
                                      (case call_fit t (Dense yt) of
                                         (t', r) \<Rightarrow>
                                           (self1\<lparr>y_feature :=
                                                     Present (Some (y_columns, Some t'))\<rparr>,
                                            case r of None \<Rightarrow> Inr () | Some e \<Rightarrow> Inl e))))))))"

subsection \<open>Horizontal concatenation\<close>

text \<open>
  \<^verbatim>\<open>np.concatenate\<close> along the first axis and along the second. It raises ValueError
  on an empty list, and when the arrays differ in their number of dimensions or in a
  dimension other than the one they are joined along.
\<close>

definition concatenate0 :: "'a ndarray list \<Rightarrow> error + 'a ndarray" where
  "concatenate0 arrs =
     (case arrs of
        [] \<Rightarrow> Inl ValueError
      | a # _ \<Rightarrow>
          if nd_shape a \<noteq> [] \<and>
             list_all (\<lambda>b. length (nd_shape b) = length (nd_shape a) \<and>
                            tl (nd_shape b) = tl (nd_shape a)) arrs
          then Inr (NDArray (sum_list (map (\<lambda>b. nd_shape b ! 0) arrs) # tl (nd_shape a))
                      (concat (map nd_data arrs)))
          else Inl ValueError)"

definition block_size :: "'a ndarray \<Rightarrow> nat" where
  "block_size b = nd_shape b ! 1 * prod_list (drop 2 (nd_shape b))"

definition concatenate1 :: "'a ndarray list \<Rightarrow> error + 'a ndarray" where
  "concatenate1 arrs =
     (case arrs of
        [] \<Rightarrow> Inl ValueError
      | a # _ \<Rightarrow>
          if 2 \<le> length (nd_shape a) \<and>
             list_all (\<lambda>b. length (nd_shape b) = length (nd_shape a) \<and>
                            nd_shape b ! 0 = nd_shape a ! 0 \<and>
                            drop 2 (nd_shape b) = drop 2 (nd_shape a)) arrs
          then Inr (NDArray
                      (nd_shape a ! 0 # sum_list (map (\<lambda>b. nd_shape b ! 1) arrs)
                         # drop 2 (nd_shape a))
                      (concat (map (\<lambda>i. concat (map (\<lambda>b. take (block_size b)
                                                         (drop (i * block_size b) (nd_data b)))
                                                 arrs))
                                 [0 ..< nd_shape a ! 0])))
          else Inl ValueError)"

text \<open>
  \<^verbatim>\<open>np.hstack\<close>: every array is first given at least one dimension; the arrays are
  joined along the first axis when the first of them has one dimension, along the second
  otherwise.
\<close>

definition atleast_1d :: "'a ndarray \<Rightarrow> 'a ndarray" where
  "atleast_1d a = (if nd_shape a = [] then NDArray [1] (nd_data a) else a)"

definition np_hstack :: "'a ndarray list \<Rightarrow> error + 'a ndarray" where
  "np_hstack tup =
     (let arrs = map atleast_1d tup
      in if arrs \<noteq> [] \<and> length (nd_shape (arrs ! 0)) = 1 then concatenate0 arrs
         else concatenate1 arrs)"

text \<open>
  \<^verbatim>\<open>sparse.hstack\<close>: every block becomes a sparse matrix (a numpy array of up to two
  dimensions is read as a matrix, one of more raises TypeError), the blocks must agree on
  their number of rows (ValueError otherwise), and the result has the columns of all
  blocks side by side. \<^verbatim>\<open>tocsr\<close> changes the storage format only and is not
  represented; \<^verbatim>\<open>toarray\<close> gives the numpy array with the same entries.
\<close>

definition to_coo :: "'a array \<Rightarrow> error + 'a spmatrix" where
  "to_coo b =
     (case b of
        Sparse m \<Rightarrow> Inr m
      | Dense a \<Rightarrow>
          (case nd_shape a of
             [] \<Rightarrow> Inr (SpMatrix 1 1 (nd_data a))
           | [n] \<Rightarrow> Inr (SpMatrix 1 n (nd_data a))
           | [r, c] \<Rightarrow> Inr (SpMatrix r c (nd_data a))
           | _ \<Rightarrow> Inl TypeError))"

fun coo_blocks ::
  "'a array list \<Rightarrow> nat option \<Rightarrow> 'a spmatrix list \<Rightarrow> error + 'a spmatrix list" where
  "coo_blocks [] rows acc = Inr acc"
| "coo_blocks (b # bs) rows acc =
     (case to_coo b of
        Inl e \<Rightarrow> Inl e
      | Inr A \<Rightarrow>
          (case rows of
             None \<Rightarrow> coo_blocks bs (Some (sp_rows A)) (acc @ [A])
           | Some r \<Rightarrow>
               if r = sp_rows A then coo_blocks bs rows (acc @ [A]) else Inl ValueError))"

definition sparse_hstack :: "'a array list \<Rightarrow> error + 'a spmatrix" where
  "sparse_hstack blocks =
     (case coo_blocks blocks None [] of
        Inl e \<Rightarrow> Inl e
      | Inr ms \<Rightarrow>
          (case ms of
             [] \<Rightarrow> Inl ValueError
           | m # _ \<Rightarrow>
               Inr (SpMatrix (sp_rows m) (sum_list (map sp_cols ms))
                      (concat (map (\<lambda>i. concat (map (\<lambda>b. take (sp_cols b)
                                                          (drop (i * sp_cols b) (sp_data b)))
                                                  ms))
                                 [0 ..< sp_rows m])))))"

definition toarray :: "'a spmatrix \<Rightarrow> 'a ndarray" where
  "toarray m = NDArray [sp_rows m, sp_cols m] (sp_data m)"

text \<open>
  The numpy array behind a member of a list that holds no sparse matrix; the combiner
  calls it on such lists only.
\<close>

fun dense_of :: "'a array \<Rightarrow> 'a ndarray" where
  "dense_of (Dense a) = a"
| "dense_of (Sparse m) = toarray m"

subsection \<open>Transform\<close>

text \<open>
  One turn of the loop of \<^verbatim>\<open>transform\<close>:
  \<^verbatim>\<open>
  Xt = self._get_col_subset(X, columns)
  if transformers is not None:
      Xt = transformers.transform(Xt)
  extracted.append(_handle_feature(Xt))
  \<close>
\<close>

fun transform_feature ::
  "'a table \<Rightarrow> ('s, 'a) feature \<Rightarrow> ('s, 'a) feature \<times> (error + 'a array)" where
  "transform_feature X (columns, transformers) =
     (case get_col_subset X columns of
        Inl e \<Rightarrow> ((columns, transformers), Inl e)
      | Inr Xt \<Rightarrow>
          (case transformers of
             None \<Rightarrow> ((columns, None), Inr (handle_feature (Dense Xt)))
           | Some t \<Rightarrow>
               (case call_transform t (Dense Xt) of
                  (t', Inl e) \<Rightarrow> ((columns, Some t'), Inl e)
                | (t', Inr Xt') \<Rightarrow> ((columns, Some t'), Inr (handle_feature Xt')))))"

fun transform_features ::
  "'a table \<Rightarrow> ('s, 'a) feature list \<Rightarrow> 'a array list
     \<Rightarrow> ('s, 'a) feature list \<times> (error + 'a array list)" where
  "transform_features X [] extracted = ([], Inr extracted)"
| "transform_features X (f # fs) extracted =
     (case transform_feature X f of
        (f', Inl e) \<Rightarrow> (f' # fs, Inl e)
      | (f', Inr fea) \<Rightarrow>
          (case transform_features X fs (extracted @ [fea]) of
             (fs', r) \<Rightarrow> (f' # fs', r)))"

text \<open>
  The combination at the end of \<^verbatim>\<open>transform\<close>:
  \<^verbatim>\<open>
  if any(sparse.issparse(fea) for fea in extracted):
      stacked = sparse.hstack(extracted).tocsr()
      if not self.sparse:
          stacked = stacked.toarray()
  else:
      stacked = np.hstack(extracted)
  return stacked
  \<close>
\<close>

definition combine :: "bool attr \<Rightarrow> 'a array list \<Rightarrow> error + 'a array" where
  "combine self_sparse extracted =
     (if list_ex issparse extracted
      then (case sparse_hstack extracted of
              Inl e \<Rightarrow> Inl e
            | Inr stacked \<Rightarrow>
                (case self_sparse of
                   Absent \<Rightarrow> Inl AttributeError
                 | Present flag \<Rightarrow>
                     if \<not> flag then Inr (Dense (toarray stacked))
                     else Inr (Sparse stacked)))
      else (case np_hstack (map dense_of extracted) of
              Inl e \<Rightarrow> Inl e
            | Inr stacked \<Rightarrow> Inr (Dense stacked)))"

definition transform ::
  "('s, 'a) mapper \<Rightarrow> 'a table \<Rightarrow> ('s, 'a) mapper \<times> (error + 'a array)" where
  "transform self X =
     (case features self of
        Absent \<Rightarrow> (self, Inl AttributeError)
      | Present fs \<Rightarrow>
          (case transform_features X fs [] of
             (fs', Inl e) \<Rightarrow> (self\<lparr>features := Present fs'\<rparr>, Inl e)
           | (fs', Inr extracted) \<Rightarrow>
               (self\<lparr>features := Present fs'\<rparr>, combine (sparse self) extracted)))"

subsection \<open>Target extraction\<close>

text \<open>
  \<^verbatim>\<open>
  def extract_X(self, X):
      return self.transform(X)
  \<close>
\<close>

definition extract_X ::
  "('s, 'a) mapper \<Rightarrow> 'a table \<Rightarrow> ('s, 'a) mapper \<times> (error + 'a array)" where
  "extract_X self X = transform self X"

text \<open>
  \<^verbatim>\<open>
  def extract_y(self, X, y=None):
      if y is None and self.y_feature is None:
          return None
      if self.y_feature is None:
          raise ValueError("DataFrameMapper does not support extract_y, ...")
      ... (df chosen as in target_frame)
      y_columns, y_transformers = self.y_feature
      yt = self._get_col_subset(df, y_columns)
      if y_transformers is not None:
          yt = y_transformers.transform(yt)
      return yt
  \<close>
  The value returned is \<^verbatim>\<open>None\<close> or an array.
\<close>

definition extract_y ::
  "('s, 'a) mapper \<Rightarrow> 'a table \<Rightarrow> 'a target
     \<Rightarrow> ('s, 'a) mapper \<times> (error + 'a array option)" where
  "extract_y self X y =
     (case y_feature self of
        Absent \<Rightarrow> (self, Inl AttributeError)
      | Present yf \<Rightarrow>
          (if y = TargetNone \<and> yf = None then (self, Inr None)
           else case yf of
                  None \<Rightarrow> (self, Inl ValueError)
                | Some (y_columns, y_transformers) \<Rightarrow>
                    (case target_frame X y of
                       Inl e \<Rightarrow> (self, Inl e)
                     | Inr df \<Rightarrow>
                         (case get_col_subset (DataFrame df) y_columns of
                            Inl e \<Rightarrow> (self, Inl e)
                          | Inr yt \<Rightarrow>
                              (case y_transformers of
                                 None \<Rightarrow> (self, Inr (Some (Dense yt)))
                               | Some t \<Rightarrow>
                                   (case call_transform t (Dense yt) of
                                      (t', r) \<Rightarrow>
                                        (self\<lparr>y_feature :=
                                                 Present (Some (y_columns, Some t'))\<rparr>,
                                         case r of
                                           Inl e \<Rightarrow> Inl e
                                         | Inr yt' \<Rightarrow> Inr (Some yt'))))))))"

text \<open>
  \<^verbatim>\<open>
  def extract_Xy(self, X, y=None):
      return self.extract_X(X), self.extract_y(X, y)
  \<close>
\<close>

definition extract_Xy ::
  "('s, 'a) mapper \<Rightarrow> 'a table \<Rightarrow> 'a target
     \<Rightarrow> ('s, 'a) mapper \<times> (error + 'a array \<times> 'a array option)" where
  "extract_Xy self X y =
     (case extract_X self X of
        (self1, Inl e) \<Rightarrow> (self1, Inl e)
      | (self1, Inr Xt) \<Rightarrow>
          (case extract_y self1 X y of
             (self2, Inl e) \<Rightarrow> (self2, Inl e)
           | (self2, Inr yt) \<Rightarrow> (self2, Inr (Xt, yt))))"

subsection \<open>Transformers whose transform leaves their state alone\<close>

text \<open>
  A transformer keeps its state in \<^verbatim>\<open>transform\<close> when the call, made in the state
  the transformer is in, returns that state, whatever the data. A mapper satisfies the
  condition when the transformer of each of its features does.
\<close>

definition transform_keeps_state :: "('s, 'a) transformer \<Rightarrow> bool" where
  "transform_keeps_state t = (\<forall>Xt. fst (t_transform t (t_state t) Xt) = t_state t)"

definition transformers_keep_state :: "('s, 'a) mapper \<Rightarrow> bool" where
  "transformers_keep_state self =
     (case features self of
        Absent \<Rightarrow> True
      | Present fs \<Rightarrow>
          list_all (\<lambda>f. case snd f of None \<Rightarrow> True | Some t \<Rightarrow> transform_keeps_state t) fs)"

subsection \<open>Example objects\<close>

text \<open>
  A frame of two rows with the integer columns \<open>a\<close> and \<open>b\<close>, and four transformers
  whose state is a number: \<open>sparse_t\<close> returns its input as a sparse matrix (a vector
  as one column); \<open>cube_t\<close> returns its input with two more axes of length 1;
  \<open>failing_t\<close> raises in \<^verbatim>\<open>fit\<close>; \<open>scaler_t\<close> raises in \<^verbatim>\<open>transform\<close> until it
  has been fitted and returns its input afterwards. \<open>single_step\<close> is a pipeline maker
  that accepts lists of one transformer.
\<close>

definition frame_ab :: "int dataframe" where
  "frame_ab = \<lparr>df_nrows = 2, df_columns = [(Name ''a'', [1, 2]), (Name ''b'', [3, 4])]\<rparr>"

definition sparse_t :: "(nat, int) transformer" where
  "sparse_t =
     \<lparr>t_state = 0,
      t_fit = (\<lambda>s Xt. (s, None)),
      t_transform = (\<lambda>s Xt. (s, Inr (case Xt of
          Sparse m \<Rightarrow> Sparse m
        | Dense a \<Rightarrow>
            (case nd_shape a of
               [n] \<Rightarrow> Sparse (SpMatrix n 1 (nd_data a))
             | [r, c] \<Rightarrow> Sparse (SpMatrix r c (nd_data a))
             | _ \<Rightarrow> Dense a))))\<rparr>"

definition cube_t :: "(nat, int) transformer" where
  "cube_t =
     \<lparr>t_state = 0,
      t_fit = (\<lambda>s Xt. (s, None)),
      t_transform = (\<lambda>s Xt. (s, Inr (case Xt of
          Sparse m \<Rightarrow> Sparse m
        | Dense a \<Rightarrow> Dense (NDArray (nd_shape a @ [1, 1]) (nd_data a)))))\<rparr>"

definition failing_t :: "(nat, int) transformer" where
  "failing_t =
     \<lparr>t_state = 0,
      t_fit = (\<lambda>s Xt. (s, Some (TransformerError 1))),
      t_transform = (\<lambda>s Xt. (s, Inr Xt))\<rparr>"

definition scaler_t :: "(nat, int) transformer" where
  "scaler_t =
     \<lparr>t_state = 0,
      t_fit = (\<lambda>s Xt. (1, None)),
      t_transform = (\<lambda>s Xt. (s, if s = 0 then Inl (TransformerError 0) else Inr Xt))\<rparr>"

text \<open>
  \<open>poly_t\<close> raises in \<^verbatim>\<open>transform\<close> until it has been fitted; afterwards it turns
  each entry \<open>x\<close> of its input into the row \<open>1, x, x * x\<close>, so that a column becomes
  a matrix of three columns. \<open>hashing_t\<close> returns a sparse matrix with the rows of its
  input, \<open>2 ^ 62\<close> columns and no entry other than 0.
\<close>

definition poly_t :: "(nat, int) transformer" where
  "poly_t =
     \<lparr>t_state = 0,
      t_fit = (\<lambda>s Xt. (1, None)),
      t_transform = (\<lambda>s Xt. (s,
         if s = 0 then Inl (TransformerError 0)
         else Inr (case Xt of
                     Sparse m \<Rightarrow> Sparse m
                   | Dense a \<Rightarrow>
                       Dense (NDArray [length (nd_data a), 3]
                                (concat (map (\<lambda>x. [1, x, x * x]) (nd_data a)))))))\<rparr>"

definition hashing_t :: "(nat, int) transformer" where
  "hashing_t =
     \<lparr>t_state = 0,
      t_fit = (\<lambda>s Xt. (s, None)),
      t_transform = (\<lambda>s Xt. (s, Inr (case shape Xt of
          [] \<Rightarrow> Xt
        | n # _ \<Rightarrow> Sparse (SpMatrix n (2 ^ 62) (replicate (n * 2 ^ 62) 0)))))\<rparr>"

definition single_step :: "(nat, int) make_pipeline" where
  "single_step ts = (case ts of [t] \<Rightarrow> Inr t | _ \<Rightarrow> Inl ValueError)"

text \<open>
  Mappers over that frame. \<open>unfitted_ab\<close> has the column \<open>a\<close> and the column list
  \<open>[b, a]\<close> as features, no transformer, and has never been fitted; \<open>fitted_ab\<close> is
  the same mapper with the widths a fit records. \<open>empty_selector\<close> has one feature,
  the empty column list. \<open>refit_failing\<close> holds widths from an earlier fit and a
  second feature whose transformer raises in \<^verbatim>\<open>fit\<close>.
\<close>

definition unfitted_ab :: "(nat, int) mapper" where
  "unfitted_ab =
     \<lparr>features = Present [(Column ''a'', None), (ColumnList [''b'', ''a''], None)],
      feature_widths = Present None, y_feature = Present None, sparse = Present False\<rparr>"

definition fitted_ab :: "(nat, int) mapper" where
  "fitted_ab = unfitted_ab\<lparr>feature_widths := Present (Some [1, 2])\<rparr>"

definition empty_selector :: "(nat, int) mapper" where
  "empty_selector =
     \<lparr>features = Present [(ColumnList [], None)],
      feature_widths = Present None, y_feature = Present None, sparse = Present False\<rparr>"

definition refit_failing :: "(nat, int) mapper" where
  "refit_failing =
     \<lparr>features = Present [(Column ''a'', None), (Column ''b'', Some failing_t)],
      feature_widths = Present (Some [5, 5]), y_feature = Present None,
      sparse = Present False\<rparr>"

text \<open>
  \<open>sparse_mapper flag\<close> has a first feature whose transformer returns a sparse matrix
  and the sparsity flag \<open>flag\<close>; \<open>fitted_scaler\<close> has one feature, with the
  transformer \<open>scaler_t\<close> in the state a fit leaves it in.
\<close>

text \<open>
  \<open>unfitted_poly\<close> has the column \<open>a\<close> as it is and the column \<open>b\<close> through
  \<open>poly_t\<close>; \<open>fitted_poly\<close> is what its fit on the example frame leaves.
  \<open>frame_empty\<close> has the two columns and no row; \<open>unfitted_wide\<close> sends both columns
  through \<open>hashing_t\<close>, and \<open>fitted_wide\<close> is what its fit on \<open>frame_empty\<close> leaves.
\<close>

definition unfitted_poly :: "(nat, int) mapper" where
  "unfitted_poly =
     \<lparr>features = Present [(Column ''a'', None), (Column ''b'', Some poly_t)],
      feature_widths = Present None, y_feature = Present None, sparse = Present False\<rparr>"

definition fitted_poly :: "(nat, int) mapper" where
  "fitted_poly =
     \<lparr>features = Present [(Column ''a'', None), (Column ''b'', Some (poly_t\<lparr>t_state := 1\<rparr>))],
      feature_widths = Present (Some [1, 3]), y_feature = Present None,
      sparse = Present False\<rparr>"

definition frame_empty :: "int dataframe" where
  "frame_empty = \<lparr>df_nrows = 0, df_columns = [(Name ''a'', []), (Name ''b'', [])]\<rparr>"

definition unfitted_wide :: "(nat, int) mapper" where
  "unfitted_wide =
     \<lparr>features = Present [(Column ''a'', Some hashing_t), (Column ''b'', Some hashing_t)],
      feature_widths = Present None, y_feature = Present None, sparse = Present True\<rparr>"

definition fitted_wide :: "(nat, int) mapper" where
  "fitted_wide = unfitted_wide\<lparr>feature_widths := Present (Some [2 ^ 62, 2 ^ 62])\<rparr>"

definition sparse_mapper :: "bool \<Rightarrow> (nat, int) mapper" where
  "sparse_mapper flag =
     \<lparr>features = Present [(Column ''a'', Some sparse_t), (ColumnList [''b'', ''a''], None)],
      feature_widths = Present (Some [1, 2]), y_feature = Present None,
      sparse = Present flag\<rparr>"

definition fitted_scaler :: "(nat, int) mapper" where
  "fitted_scaler =
     \<lparr>features = Present [(Column ''a'', Some (scaler_t\<lparr>t_state := 1\<rparr>))],
      feature_widths = Present (Some [1]), y_feature = Present None,
      sparse = Present False\<rparr>"



definition saved_state :: "(nat, int) persisted_state" where
  "saved_state =
     \<lparr>st_features = Some [(Column ''a'', TransformerList [scaler_t]),
                          (ColumnList [''b'', ''a''], NoTransformer)],
      st_sparse = None,
      st_feature_widths = Some (Some [1, 2]),
      st_y_feature = Some (Some (Column ''b'', NoTransformer))\<rparr>"

definition restored :: "(nat, int) mapper" where
  "restored =
     \<lparr>features = Present [(Column ''a'', Some scaler_t), (ColumnList [''b'', ''a''], None)],
      feature_widths = Absent, y_feature = Absent, sparse = Present False\<rparr>"

section \<open>Properties\<close>

subsection \<open>Auxiliary facts\<close>

lemma T_row: "length d = n \<Longrightarrow> T (NDArray [Suc 0, n] d) = NDArray [n, Suc 0] d"
  by (auto simp: T_def intro!: nth_equalityI)

lemma handle_feature_vector:
  "length d = n \<Longrightarrow> handle_feature (Dense (NDArray [n] d)) = Dense (NDArray [n, 1] d)"
  by (simp add: np_array_singleton_def T_row)

lemma handle_feature_other:
  "length (shape fea) \<noteq> 1 \<Longrightarrow> handle_feature fea = fea"
  by (cases fea) auto

lemma rank_handle_feature:
  "length (shape (handle_feature fea)) =
     (if length (shape fea) = 1 then 2 else length (shape fea))"
  by (cases fea) (auto simp: T_def np_array_singleton_def)

lemma wrap_add: "((a + h) mod m - h + b + h) mod m = (a + b + h) mod (m :: int)"
proof -
  have "(a + h) mod m - h + b + h = (a + h) mod m + b" by simp
  then have "((a + h) mod m - h + b + h) mod m = ((a + h) mod m + b) mod m" by (simp only:)
  also have "\<dots> = (a + h + b) mod m" by (rule mod_add_left_eq)
  also have "a + h + b = a + b + h" by simp
  finally show ?thesis .
qed

lemma int64_add_left: "int64 (int64 a + b) = int64 (a + b)"
  unfolding int64_def by (simp only: wrap_add)

lemma int64_id: "- (2 ^ 63) \<le> x \<Longrightarrow> x < 2 ^ 63 \<Longrightarrow> int64 x = x"
  unfolding int64_def by (simp add: mod_pos_pos_trivial)

lemma int64_zero: "int64 0 = 0"
  by (simp add: int64_def)

lemma cumsum_from_eq:
  "cumsum_from (int64 acc) xs
     = map (\<lambda>k. int64 (acc + int (sum_list (take (Suc k) xs)))) [0 ..< length xs]"
proof (induction xs arbitrary: acc)
  case Nil
  show ?case by simp
next
  case (Cons x xs)
  have "[0 ..< length (x # xs)] = 0 # map Suc [0 ..< length xs]"
    by (simp add: upt_conv_Cons map_Suc_upt del: upt_Suc)
  then show ?case
    by (simp add: Cons.IH int64_add_left comp_def add.assoc del: upt_Suc)
qed

lemma np_sum_eq: "np_sum xs = int64 (int (sum_list xs))"
proof -
  have "foldl (\<lambda>a x. int64 (a + int x)) (int64 a) xs = int64 (a + int (sum_list xs))" for a
    by (induction xs arbitrary: a) (auto simp: int64_add_left add.assoc)
  from this [of 0] show ?thesis by (simp add: np_sum_def int64_zero)
qed

lemma np_cumsum_widths:
  "np_cumsum ([0] @ ws)
     = map (\<lambda>k. int64 (int (sum_list (take k ws)))) [0 ..< length ws + 1]"
proof -
  have "[0 ..< length ws + 1] = 0 # map Suc [0 ..< length ws]"
    by (simp add: upt_conv_Cons map_Suc_upt del: upt_Suc)
  moreover have "cumsum_from (int64 0) ws
      = map (\<lambda>k. int64 (0 + int (sum_list (take (Suc k) ws)))) [0 ..< length ws]"
    by (rule cumsum_from_eq)
  ultimately show ?thesis
    by (simp add: np_cumsum_def int64_zero comp_def del: upt_Suc)
qed

lemma repeat_features_eq:
  "repeat_features wfs rs = rs @ concat (map (\<lambda>(w, f). replicate w f) wfs)"
  by (induction wfs rs rule: repeat_features.induct) auto

subsection \<open>The widths recorded by fit (claims C6 and C7)\<close>

lemma fit_features_Inr:
  "fit_features X fs acc = (fs', Inr ws) \<Longrightarrow>
     length fs' = length fs \<and>
     (\<exists>ws'. ws = acc @ ws' \<and> length ws' = length fs \<and>
        (\<forall>i < length fs. fit_feature X (fs ! i) = (fs' ! i, Inr (ws' ! i))))"
proof (induction fs arbitrary: acc fs' ws)
  case Nil
  then show ?case by simp
next
  case (Cons f fs)
  obtain f' r where ff: "fit_feature X f = (f', r)" by (cases "fit_feature X f")
  with Cons.prems obtain w where r: "r = Inr w" by (cases r) auto
  obtain fs1 r1 where rest: "fit_features X fs (acc @ [w]) = (fs1, r1)"
    by (cases "fit_features X fs (acc @ [w])")
  with Cons.prems ff r have eq: "fs' = f' # fs1" "r1 = Inr ws" by auto
  from Cons.IH[OF rest[unfolded eq(2)]] obtain ws1 where
    ih: "length fs1 = length fs" "ws = (acc @ [w]) @ ws1" "length ws1 = length fs"
        "\<forall>i < length fs. fit_feature X (fs ! i) = (fs1 ! i, Inr (ws1 ! i))"
    by blast
  have "\<forall>i < length (f # fs). fit_feature X ((f # fs) ! i) = (fs' ! i, Inr ((w # ws1) ! i))"
    using ih(4) ff r eq(1) by (auto simp: nth_Cons split: nat.splits)
  with ih eq show ?case by auto
qed

lemma fit_Absent: "features self = Absent \<Longrightarrow> fit self X y = (self, Inl AttributeError)"
  by (simp add: fit_def)

lemma fit_loop_failure:
  "features self = Present fs \<Longrightarrow> fit_features X fs [] = (fs', Inl e) \<Longrightarrow>
     fit self X y = (self\<lparr>features := Present fs'\<rparr>, Inl e)"
  by (simp add: fit_def)

lemma fit_loop_success:
  "features self = Present fs \<Longrightarrow> fit_features X fs [] = (fs', Inr ws) \<Longrightarrow>
     feature_widths (fst (fit self X y)) = Present (Some ws)"
  by (simp add: fit_def Let_def split: attr.splits option.splits prod.splits sum.splits)

lemma fit_feature_measures:
  assumes "fit_feature X f = (f', Inr w)"
  shows "\<exists>Xt out. get_col_subset X (fst f) = Inr Xt
           \<and> (case snd f of
                 None \<Rightarrow> out = Dense Xt
               | Some t \<Rightarrow>
                   (\<exists>s1 s2. t_fit t (t_state t) (Dense Xt) = (s1, None)
                      \<and> t_transform t s1 (Dense Xt) = (s2, Inr out)))
           \<and> tuple_index (shape (handle_feature out)) 1 = Inr w"
proof (cases f)
  case (Pair columns transformers)
  from assms Pair obtain Xt where Xt: "get_col_subset X columns = Inr Xt"
    by (cases "get_col_subset X columns") auto
  show ?thesis
  proof (cases transformers)
    case None
    with assms Pair Xt have "tuple_index (shape (handle_feature (Dense Xt))) 1 = Inr w"
      by simp
    with Pair None Xt show ?thesis by auto
  next
    case (Some t)
    obtain s1 r1 where f1: "t_fit t (t_state t) (Dense Xt) = (s1, r1)"
      by (cases "t_fit t (t_state t) (Dense Xt)")
    obtain s2 r2 where f2: "t_transform t s1 (Dense Xt) = (s2, r2)"
      by (cases "t_transform t s1 (Dense Xt)")
    from assms Pair Some Xt f1 have r1: "r1 = None"
      by (cases r1) (auto simp: call_fit_def)
    from assms Pair Some Xt f1 r1 f2 obtain out where r2: "r2 = Inr out"
      by (cases r2) (auto simp: call_fit_def call_transform_def)
    from assms Pair Some Xt f1 r1 f2 r2
    have "tuple_index (shape (handle_feature out)) 1 = Inr w"
      by (simp add: call_fit_def call_transform_def)
    with Pair Some Xt f1 r1 f2 r2 show ?thesis by auto
  qed
qed

lemma fit_loop_measured:
  assumes "fit_features X fs [] = (fs', Inr ws)"
  shows "length ws = length fs
       \<and> (\<forall>i < length fs. \<exists>Xt out.
             get_col_subset X (fst (fs ! i)) = Inr Xt
             \<and> (case snd (fs ! i) of
                   None \<Rightarrow> out = Dense Xt
                 | Some t \<Rightarrow>
                     (\<exists>s1 s2. t_fit t (t_state t) (Dense Xt) = (s1, None)
                        \<and> t_transform t s1 (Dense Xt) = (s2, Inr out)))
             \<and> tuple_index (shape (handle_feature out)) 1 = Inr (ws ! i))"
proof -
  from fit_features_Inr[OF assms]
  have l: "length ws = length fs"
    and each: "\<forall>i < length fs. fit_feature X (fs ! i) = (fs' ! i, Inr (ws ! i))"
    by auto
  from each have "\<forall>i < length fs. \<exists>Xt out.
             get_col_subset X (fst (fs ! i)) = Inr Xt
             \<and> (case snd (fs ! i) of
                   None \<Rightarrow> out = Dense Xt
                 | Some t \<Rightarrow>
                     (\<exists>s1 s2. t_fit t (t_state t) (Dense Xt) = (s1, None)
                        \<and> t_transform t s1 (Dense Xt) = (s2, Inr out)))
             \<and> tuple_index (shape (handle_feature out)) 1 = Inr (ws ! i)"
    using fit_feature_measures by blast
  with l show ?thesis by simp
qed

lemma tuple_index_Inr: "tuple_index t i = Inr v \<Longrightarrow> i < length t \<and> v = t ! i"
  by (auto simp: tuple_index_def split: if_splits)

text \<open>
  Claim C6, as amended. After a successful \<^verbatim>\<open>fit\<close> the widths array is set and has
  exactly one entry per feature, in the order of the features. Entry \<open>i\<close> is the second
  dimension of the normalised fit-time output of feature \<open>i\<close>, where that output is the
  selected subset itself for a feature without transformer, and otherwise what the
  transformer, fitted on the subset, makes of the same subset in \<^verbatim>\<open>transform\<close>. The
  entry is a natural number and may be 0.
\<close>

theorem fit_sets_one_width_per_feature:
  assumes "fit self X y = (self', Inr ())"
  shows "\<exists>fs ws. features self = Present fs
           \<and> feature_widths self' = Present (Some ws)
           \<and> length ws = length fs
           \<and> (\<forall>i < length fs. \<exists>Xt out.
                 get_col_subset X (fst (fs ! i)) = Inr Xt
                 \<and> (case snd (fs ! i) of
                       None \<Rightarrow> out = Dense Xt
                     | Some t \<Rightarrow>
                         (\<exists>s1 s2. t_fit t (t_state t) (Dense Xt) = (s1, None)
                            \<and> t_transform t s1 (Dense Xt) = (s2, Inr out)))
                 \<and> 1 < length (shape (handle_feature out))
                 \<and> ws ! i = shape (handle_feature out) ! 1)"
proof -
  from assms obtain fs where fs: "features self = Present fs"
    by (cases "features self") (auto simp: fit_Absent)
  obtain fs' r where loop: "fit_features X fs [] = (fs', r)"
    by (cases "fit_features X fs []")
  from assms fs loop obtain ws where r: "r = Inr ws"
    by (cases r) (auto simp: fit_loop_failure)
  from fit_loop_success[OF fs loop[unfolded r], of y] assms
  have w: "feature_widths self' = Present (Some ws)" by simp
  from fit_loop_measured[OF loop[unfolded r]]
  have l: "length ws = length fs"
    and each: "\<forall>i < length fs. \<exists>Xt out.
             get_col_subset X (fst (fs ! i)) = Inr Xt
             \<and> (case snd (fs ! i) of
                   None \<Rightarrow> out = Dense Xt
                 | Some t \<Rightarrow>
                     (\<exists>s1 s2. t_fit t (t_state t) (Dense Xt) = (s1, None)
                        \<and> t_transform t s1 (Dense Xt) = (s2, Inr out)))
             \<and> tuple_index (shape (handle_feature out)) 1 = Inr (ws ! i)"
    by simp_all
  have "\<forall>i < length fs. \<exists>Xt out.
                 get_col_subset X (fst (fs ! i)) = Inr Xt
                 \<and> (case snd (fs ! i) of
                       None \<Rightarrow> out = Dense Xt
                     | Some t \<Rightarrow>
                         (\<exists>s1 s2. t_fit t (t_state t) (Dense Xt) = (s1, None)
                            \<and> t_transform t s1 (Dense Xt) = (s2, Inr out)))
                 \<and> 1 < length (shape (handle_feature out))
                 \<and> ws ! i = shape (handle_feature out) ! 1"
  proof (intro allI impI)
    fix i
    assume "i < length fs"
    with each obtain Xt out where
      g: "get_col_subset X (fst (fs ! i)) = Inr Xt"
      and o: "case snd (fs ! i) of
                   None \<Rightarrow> out = Dense Xt
                 | Some t \<Rightarrow>
                     (\<exists>s1 s2. t_fit t (t_state t) (Dense Xt) = (s1, None)
                        \<and> t_transform t s1 (Dense Xt) = (s2, Inr out))"
      and m: "tuple_index (shape (handle_feature out)) 1 = Inr (ws ! i)"
      by blast
    from tuple_index_Inr[OF m] g o
    show "\<exists>Xt out.
                 get_col_subset X (fst (fs ! i)) = Inr Xt
                 \<and> (case snd (fs ! i) of
                       None \<Rightarrow> out = Dense Xt
                     | Some t \<Rightarrow>
                         (\<exists>s1 s2. t_fit t (t_state t) (Dense Xt) = (s1, None)
                            \<and> t_transform t s1 (Dense Xt) = (s2, Inr out)))
                 \<and> 1 < length (shape (handle_feature out))
                 \<and> ws ! i = shape (handle_feature out) ! 1"
      by blast
  qed
  with fs w l show ?thesis by blast
qed

text \<open>
  The theorem at the fit of \<open>unfitted_poly\<close> on the example frame: the second feature
  selects a vector of two entries, its transformer returns a matrix of three columns,
  and the width recorded is 3.
\<close>

theorem fit_sets_one_width_per_feature_witness:
  "fit unfitted_poly (DataFrame frame_ab) TargetNone = (fitted_poly, Inr ())
   \<and> features unfitted_poly = Present [(Column ''a'', None), (Column ''b'', Some poly_t)]
   \<and> feature_widths fitted_poly = Present (Some [1, 3])
   \<and> get_col_subset (DataFrame frame_ab) (Column ''b'') = Inr (NDArray [2] [3, 4])
   \<and> t_fit poly_t (t_state poly_t) (Dense (NDArray [2] [3, 4])) = (1, None)
   \<and> t_transform poly_t 1 (Dense (NDArray [2] [3, 4]))
       = (1, Inr (Dense (NDArray [2, 3] [1, 3, 9, 1, 4, 16])))
   \<and> shape (handle_feature (Dense (NDArray [2, 3] [1, 3, 9, 1, 4, 16 :: int]))) ! 1 = 3"
proof -
  have f: "fit unfitted_poly (DataFrame frame_ab) TargetNone = (fitted_poly, Inr ())"
    by (simp add: fit_def unfitted_poly_def fitted_poly_def get_col_subset_def
          getitem_label_values_def labelled_def frame_ab_def tuple_index_def
          np_array_singleton_def T_def call_fit_def call_transform_def poly_t_def)
  have g: "get_col_subset (DataFrame frame_ab) (Column ''b'') = Inr (NDArray [2] [3, 4])"
    by (simp add: get_col_subset_def getitem_label_values_def labelled_def frame_ab_def)
  have t: "t_fit poly_t (t_state poly_t) (Dense (NDArray [2] [3, 4])) = (1, None)"
    "t_transform poly_t 1 (Dense (NDArray [2] [3, 4]))
       = (1, Inr (Dense (NDArray [2, 3] [1, 3, 9, 1, 4, 16])))"
    by (simp_all add: poly_t_def)
  show ?thesis
    using f g t fit_sets_one_width_per_feature [OF f]
    by (simp add: unfitted_poly_def fitted_poly_def)
qed

text \<open>
  The claim as stated fails: a feature whose selector is the empty column list has an
  output of two rows and no column, the fit succeeds, and the width recorded is 0.
\<close>

theorem zero_width_counterexample:
  "snd (fit empty_selector (DataFrame frame_ab) TargetNone) = Inr ()
   \<and> feature_widths (fst (fit empty_selector (DataFrame frame_ab) TargetNone))
       = Present (Some [0])
   \<and> \<not> list_all (\<lambda>w. 0 < w) [0 :: nat]"
  by (simp add: fit_def empty_selector_def get_col_subset_def getitem_list_values_def
        frame_values_def frame_ab_def tuple_index_def)

text \<open>
  Claim C7. If the turn of the loop for some feature raises (selector resolution, the
  transformer's \<^verbatim>\<open>fit\<close> or \<^verbatim>\<open>transform\<close>, or the width measurement), then \<^verbatim>\<open>fit\<close>
  raises and the widths attribute of the mapper is what it was before the call.
\<close>

theorem fit_failure_keeps_widths:
  assumes "features self = Present fs" and "i < length fs"
    and "snd (fit_feature X (fs ! i)) = Inl e"
  shows "\<exists>e'. snd (fit self X y) = Inl e'
           \<and> feature_widths (fst (fit self X y)) = feature_widths self"
proof -
  obtain fs' r where loop: "fit_features X fs [] = (fs', r)"
    by (cases "fit_features X fs []")
  have "\<exists>e'. r = Inl e'"
  proof (cases r)
    case (Inl e')
    then show ?thesis by simp
  next
    case (Inr ws)
    from fit_features_Inr[OF loop[unfolded Inr]] assms(2,3) show ?thesis by auto
  qed
  then obtain e' where "r = Inl e'" ..
  with loop assms(1) have "fit self X y = (self\<lparr>features := Present fs'\<rparr>, Inl e')"
    by (simp add: fit_loop_failure)
  then show ?thesis by simp
qed

text \<open>
  The theorem at \<open>refit_failing\<close>: the transformer of the second feature raises, the
  fit raises the same exception, and the widths 5 and 5 of the earlier fit remain.
\<close>

theorem fit_failure_keeps_widths_witness:
  "snd (fit_feature (DataFrame frame_ab) (Column ''b'', Some failing_t))
     = Inl (TransformerError 1)
   \<and> snd (fit refit_failing (DataFrame frame_ab) TargetNone) = Inl (TransformerError 1)
   \<and> feature_widths (fst (fit refit_failing (DataFrame frame_ab) TargetNone))
       = Present (Some [5, 5])"
proof -
  have f: "features refit_failing = Present [(Column ''a'', None), (Column ''b'', Some failing_t)]"
    by (simp add: refit_failing_def)
  have i: "(1::nat) < length [(Column ''a'', None), (Column ''b'', Some failing_t)]" by simp
  have e: "snd (fit_feature (DataFrame frame_ab)
                 ([(Column ''a'', None), (Column ''b'', Some failing_t)] ! 1))
             = Inl (TransformerError 1)"
    by (simp add: get_col_subset_def getitem_label_values_def labelled_def frame_ab_def
          call_fit_def failing_t_def)
  have w: "feature_widths refit_failing = Present (Some [5, 5])"
    by (simp add: refit_failing_def)
  have s: "snd (fit refit_failing (DataFrame frame_ab) TargetNone) = Inl (TransformerError 1)"
    by (simp add: fit_def refit_failing_def get_col_subset_def getitem_label_values_def
          labelled_def frame_ab_def call_fit_def failing_t_def tuple_index_def
          np_array_singleton_def T_def)
  show ?thesis
    using fit_failure_keeps_widths [OF f i e, of TargetNone] e s w by simp
qed

subsection \<open>Sparse and dense combination (claim C1)\<close>

lemma transform_Present:
  "features self = Present fs \<Longrightarrow> transform_features X fs [] = (fs', r) \<Longrightarrow>
     transform self X =
       (self\<lparr>features := Present fs'\<rparr>,
        case r of Inl e \<Rightarrow> Inl e | Inr extracted \<Rightarrow> combine (sparse self) extracted)"
  by (cases r) (simp_all add: transform_def)

lemma issparse_combine:
  "combine (Present flag) extracted = Inr out \<Longrightarrow>
     issparse out \<longleftrightarrow> list_ex issparse extracted \<and> flag"
  by (auto simp: combine_def split: if_splits sum.splits)

text \<open>
  Claim C1. Let \<open>extracted\<close> be the list of per-feature outputs that the loop of
  \<^verbatim>\<open>transform\<close> produces, and \<open>flag\<close> the sparsity flag of the mapper. Whenever
  \<^verbatim>\<open>transform\<close> returns an output, that output is sparse if and only if some member of
  \<open>extracted\<close> is sparse and the flag is true. With a sparse member and a true flag the
  result is the sparse horizontal stack; with a sparse member and a false flag it is that
  stack converted to a numpy array; with no sparse member it is the numpy horizontal
  stack, whatever the flag.
\<close>

theorem transform_sparse_iff:
  assumes "features self = Present fs"
    and "transform_features X fs [] = (fs', Inr extracted)"
    and "sparse self = Present flag"
  shows "(\<forall>out. snd (transform self X) = Inr out \<longrightarrow>
            (issparse out \<longleftrightarrow> list_ex issparse extracted \<and> flag))
       \<and> (list_ex issparse extracted \<and> flag \<longrightarrow>
            snd (transform self X) = map_sum id Sparse (sparse_hstack extracted))
       \<and> (list_ex issparse extracted \<and> \<not> flag \<longrightarrow>
            snd (transform self X)
              = map_sum id (\<lambda>stacked. Dense (toarray stacked)) (sparse_hstack extracted))
       \<and> (\<not> list_ex issparse extracted \<longrightarrow>
            snd (transform self X) = map_sum id Dense (np_hstack (map dense_of extracted)))"
proof -
  have t: "snd (transform self X) = combine (Present flag) extracted"
    using transform_Present[OF assms(1,2)] assms(3) by simp
  have a: "\<forall>out. snd (transform self X) = Inr out \<longrightarrow>
            (issparse out \<longleftrightarrow> list_ex issparse extracted \<and> flag)"
    using t issparse_combine by metis
  have b: "list_ex issparse extracted \<and> flag \<longrightarrow>
            snd (transform self X) = map_sum id Sparse (sparse_hstack extracted)"
    by (simp add: t combine_def split: sum.splits)
  have c: "list_ex issparse extracted \<and> \<not> flag \<longrightarrow>
            snd (transform self X)
              = map_sum id (\<lambda>stacked. Dense (toarray stacked)) (sparse_hstack extracted)"
    by (simp add: t combine_def split: sum.splits)
  have d: "\<not> list_ex issparse extracted \<longrightarrow>
            snd (transform self X) = map_sum id Dense (np_hstack (map dense_of extracted))"
    by (simp add: t combine_def split: sum.splits)
  from a b c d show ?thesis by blast
qed

lemma extracted_sparse_mapper:
  "transform_features (DataFrame frame_ab)
      [(Column ''a'', Some sparse_t), (ColumnList [''b'', ''a''], None)] []
    = ([(Column ''a'', Some sparse_t), (ColumnList [''b'', ''a''], None)],
       Inr [Sparse (SpMatrix 2 1 [1, 2]), Dense (NDArray [2, 2] [3, 1, 4, 2])])"
  by (simp add: get_col_subset_def getitem_label_values_def getitem_list_values_def
        labelled_def frame_values_def frame_ab_def call_transform_def sparse_t_def
        np_array_singleton_def T_def upt_rec)

lemma hstack_example:
  "sparse_hstack [Sparse (SpMatrix 2 (Suc 0) [1, 2]), Dense (NDArray [2, 2] [3, 1, 4, 2 :: int])]
     = Inr (SpMatrix 2 3 [1, 3, 1, 2, 4, 2])"
  by (simp add: sparse_hstack_def to_coo_def upt_rec)

text \<open>
  The theorem at three mappers on the example frame: a sparse first feature with the
  flag true (sparse result), the same with the flag false (dense result), and no sparse
  feature (dense result).
\<close>

theorem transform_sparse_iff_witness:
  "snd (transform (sparse_mapper True) (DataFrame frame_ab))
     = Inr (Sparse (SpMatrix 2 3 [1, 3, 1, 2, 4, 2]))
   \<and> snd (transform (sparse_mapper False) (DataFrame frame_ab))
     = Inr (Dense (NDArray [2, 3] [1, 3, 1, 2, 4, 2]))
   \<and> snd (transform fitted_ab (DataFrame frame_ab))
     = Inr (Dense (NDArray [2, 3] [1, 3, 1, 2, 4, 2]))"
proof -
  let ?fs = "[(Column ''a'', Some sparse_t), (ColumnList [''b'', ''a''], None)]"
  let ?ex = "[Sparse (SpMatrix 2 1 [1, 2]), Dense (NDArray [2, 2] [3, 1, 4, 2 :: int])]"
  have f: "features (sparse_mapper flag) = Present ?fs" for flag
    by (simp add: sparse_mapper_def)
  have s: "sparse (sparse_mapper flag) = Present flag" for flag
    by (simp add: sparse_mapper_def)
  have f2: "features fitted_ab = Present [(Column ''a'', None), (ColumnList [''b'', ''a''], None)]"
    by (simp add: fitted_ab_def unfitted_ab_def)
  have s2: "sparse fitted_ab = Present False"
    by (simp add: fitted_ab_def unfitted_ab_def)
  have e2: "transform_features (DataFrame frame_ab)
              [(Column ''a'', None), (ColumnList [''b'', ''a''], None)] []
            = ([(Column ''a'', None), (ColumnList [''b'', ''a''], None)],
               Inr [Dense (NDArray [2, 1] [1, 2]), Dense (NDArray [2, 2] [3, 1, 4, 2])])"
    by (simp add: get_col_subset_def getitem_label_values_def getitem_list_values_def
          labelled_def frame_values_def frame_ab_def np_array_singleton_def T_def upt_rec)
  have h2: "np_hstack [NDArray [2, Suc 0] [1, 2], NDArray [2, 2] [3, 1, 4, 2 :: int]]
             = Inr (NDArray [2, 3] [1, 3, 1, 2, 4, 2])"
    by (simp add: np_hstack_def atleast_1d_def concatenate1_def block_size_def upt_rec)
  show ?thesis
    using transform_sparse_iff [OF f extracted_sparse_mapper s, of True]
      transform_sparse_iff [OF f extracted_sparse_mapper s, of False]
      transform_sparse_iff [OF f2 e2 s2]
    by (simp add: hstack_example h2 toarray_def)
qed

subsection \<open>Transform and the fit state (claims C3 and C9)\<close>

lemma call_transform_keeps:
  assumes "transform_keeps_state t"
  shows "fst (call_transform t Xt) = t"
proof -
  obtain s' r where c: "t_transform t (t_state t) Xt = (s', r)"
    by (cases "t_transform t (t_state t) Xt")
  from assms have "fst (t_transform t (t_state t) Xt) = t_state t"
    by (simp add: transform_keeps_state_def)
  with c have "s' = t_state t" by simp
  with c show ?thesis by (simp add: call_transform_def)
qed

lemma transform_feature_keeps:
  assumes "case snd f of None \<Rightarrow> True | Some t \<Rightarrow> transform_keeps_state t"
  shows "fst (transform_feature X f) = f"
proof (cases f)
  case (Pair columns transformers)
  show ?thesis
  proof (cases transformers)
    case None
    with Pair show ?thesis by (simp split: sum.splits)
  next
    case (Some t)
    with assms Pair have "fst (call_transform t Xt) = t" for Xt
      by (simp add: call_transform_keeps)
    with Pair Some show ?thesis
      by (auto split: sum.splits prod.splits) (metis fst_conv)+
  qed
qed

lemma transform_features_keep:
  "list_all (\<lambda>f. case snd f of None \<Rightarrow> True | Some t \<Rightarrow> transform_keeps_state t) fs \<Longrightarrow>
     fst (transform_features X fs acc) = fs"
proof (induction fs arbitrary: acc)
  case Nil
  show ?case by simp
next
  case (Cons f fs)
  from Cons.prems have k: "fst (transform_feature X f) = f"
    by (simp add: transform_feature_keeps)
  obtain f' r where tf: "transform_feature X f = (f', r)" by (cases "transform_feature X f")
  with k have f': "f' = f" by simp
  show ?case
  proof (cases r)
    case (Inl e)
    with tf f' show ?thesis by simp
  next
    case (Inr fea)
    from Cons.prems have "fst (transform_features X fs (acc @ [fea])) = fs"
      by (simp add: Cons.IH)
    with tf f' Inr show ?thesis
      by (cases "transform_features X fs (acc @ [fea])") auto
  qed
qed

text \<open>
  Claim C9. If the transformer of every feature keeps its state in \<^verbatim>\<open>transform\<close>,
  then a call of \<^verbatim>\<open>transform\<close> leaves the mapper as it was, and a second call on the
  same input has the same outcome as the first.
\<close>

theorem transform_twice_identical:
  assumes "transformers_keep_state self"
  shows "fst (transform self X) = self
       \<and> snd (transform (fst (transform self X)) X) = snd (transform self X)"
proof (cases "features self")
  case Absent
  then show ?thesis by (simp add: transform_def)
next
  case (Present fs)
  obtain fs' r where tf: "transform_features X fs [] = (fs', r)"
    by (cases "transform_features X fs []")
  from assms Present have "fst (transform_features X fs []) = fs"
    by (simp add: transformers_keep_state_def transform_features_keep)
  with tf have "fs' = fs" by simp
  with transform_Present[OF Present tf] Present have "fst (transform self X) = self"
    by simp
  then show ?thesis by simp
qed

text \<open>The theorem at the mapper with the fitted \<open>scaler_t\<close> on column \<open>a\<close>.\<close>

theorem transform_twice_identical_witness:
  "transformers_keep_state fitted_scaler
   \<and> fst (transform fitted_scaler (DataFrame frame_ab)) = fitted_scaler
   \<and> snd (transform fitted_scaler (DataFrame frame_ab)) = Inr (Dense (NDArray [2, 1] [1, 2]))
   \<and> snd (transform (fst (transform fitted_scaler (DataFrame frame_ab))) (DataFrame frame_ab))
       = Inr (Dense (NDArray [2, 1] [1, 2]))"
proof -
  have k: "transformers_keep_state fitted_scaler"
    by (simp add: transformers_keep_state_def transform_keeps_state_def fitted_scaler_def
          scaler_t_def)
  have t: "snd (transform fitted_scaler (DataFrame frame_ab))
             = Inr (Dense (NDArray [2, 1] [1, 2]))"
    by (simp add: transform_def fitted_scaler_def scaler_t_def call_transform_def
          get_col_subset_def getitem_label_values_def labelled_def frame_ab_def
          np_array_singleton_def T_def combine_def np_hstack_def atleast_1d_def
          concatenate1_def block_size_def upt_rec)
  show ?thesis
    using k t transform_twice_identical [OF k, of "DataFrame frame_ab"] by simp
qed





lemma fit_features_of:
  "features self = Present fs \<Longrightarrow>
     features (fst (fit self X y)) = Present (fst (fit_features X fs []))"
  by (simp add: fit_def Let_def split: attr.splits option.splits prod.splits sum.splits)




subsection \<open>Target extraction (claim C4)\<close>



subsection \<open>Per-column back-references (claim C5)\<close>

lemma replicated_nth:
  "i < length wfs \<Longrightarrow> sum_list (take i (map fst wfs)) \<le> j \<Longrightarrow>
     j < sum_list (take (Suc i) (map fst wfs)) \<Longrightarrow>
     concat (map (\<lambda>(w, f). replicate w f) wfs) ! j = snd (wfs ! i)"
proof (induction wfs arbitrary: i j)
  case Nil
  then show ?case by simp
next
  case (Cons wf wfs)
  obtain w f where wf: "wf = (w, f)" by (cases wf)
  show ?case
  proof (cases i)
    case 0
    with Cons.prems wf show ?thesis by (simp add: nth_append)
  next
    case (Suc i')
    from Cons.prems(1) Suc have a: "i' < length wfs" by simp
    from Cons.prems(2) Suc wf have b: "w + sum_list (take i' (map fst wfs)) \<le> j" by simp
    from Cons.prems(3) Suc wf have c: "j < w + sum_list (take (Suc i') (map fst wfs))" by simp
    from b have d: "w \<le> j" by simp
    from b have b': "sum_list (take i' (map fst wfs)) \<le> j - w" by simp
    from c d have c': "j - w < sum_list (take (Suc i') (map fst wfs))" by simp
    from Cons.IH[OF a b' c'] have "concat (map (\<lambda>(w, f). replicate w f) wfs) ! (j - w) = snd (wfs ! i')" .
    with d Suc wf show ?thesis by (simp add: nth_append)
  qed
qed

lemma length_replicated:
  "length (concat (map (\<lambda>(w, f). replicate w f) wfs)) = sum_list (map fst wfs)"
  by (induction wfs) auto

lemma zip_as_map:
  "length ws = length fs \<Longrightarrow> zip ws fs = map (\<lambda>i. (ws ! i, fs ! i)) [0 ..< length fs]"
  by (rule nth_equalityI) simp_all

text \<open>
  For a mapper whose widths \<open>ws\<close> are set, one per feature: \<^verbatim>\<open>X_features_\<close> repeats
  feature \<open>i\<close> exactly \<open>ws ! i\<close> times, in the order of the features; it has as many
  entries as the widths sum to; on the span of columns of feature \<open>i\<close> it is constantly
  feature \<open>i\<close>; and \<^verbatim>\<open>X_columns_\<close> is the list of the selectors of these entries when
  there is at least one entry, and raises IndexError when there is none.
\<close>

lemma X_features_spans:
  assumes w: "feature_widths self = Present (Some ws)" and f: "features self = Present fs"
    and l: "length ws = length fs"
  shows "\<exists>rs. X_features self = Inr rs
           \<and> rs = concat (map (\<lambda>i. replicate (ws ! i) (fs ! i)) [0 ..< length fs])
           \<and> length rs = sum_list ws
           \<and> (\<forall>i < length fs. \<forall>j. sum_list (take i ws) \<le> j \<and> j < sum_list (take (Suc i) ws)
                  \<longrightarrow> rs ! j = fs ! i)
           \<and> X_columns self = (if sum_list ws = 0 then Inl IndexError else Inr (map fst rs))"
proof -
  define rs where "rs = concat (map (\<lambda>(w, f). replicate w f) (zip ws fs))"
  have xf: "X_features self = Inr rs"
    using w f by (simp add: X_features_def repeat_features_eq rs_def)
  have m: "map fst (zip ws fs) = ws" using l by simp
  have len: "length rs = sum_list ws"
    unfolding rs_def by (simp only: length_replicated m)
  have alt: "rs = concat (map (\<lambda>i. replicate (ws ! i) (fs ! i)) [0 ..< length fs])"
    unfolding rs_def by (simp only: zip_as_map[OF l]) (simp add: comp_def)
  have span: "\<forall>i < length fs. \<forall>j. sum_list (take i ws) \<le> j \<and> j < sum_list (take (Suc i) ws)
                  \<longrightarrow> rs ! j = fs ! i"
  proof (intro allI impI)
    fix i j
    assume i: "i < length fs"
      and j: "sum_list (take i ws) \<le> j \<and> j < sum_list (take (Suc i) ws)"
    from i l have iz: "i < length (zip ws fs)" by simp
    from j have j1: "sum_list (take i (map fst (zip ws fs))) \<le> j" by (simp only: m)
    from j have j2: "j < sum_list (take (Suc i) (map fst (zip ws fs)))" by (simp only: m)
    from replicated_nth[OF iz j1 j2] have "rs ! j = snd (zip ws fs ! i)"
      by (simp only: rs_def)
    with i l show "rs ! j = fs ! i" by simp
  qed
  have "(rs = []) = (length rs = 0)" by simp
  then have e: "(rs = []) = (sum_list ws = 0)" by (simp only: len)
  have "X_columns self = (if rs = [] then Inl IndexError else Inr (map fst rs))"
    by (simp add: X_columns_def xf)
  then have cols:
    "X_columns self = (if sum_list ws = 0 then Inl IndexError else Inr (map fst rs))"
    by (simp only: e)
  show ?thesis
    by (rule exI[of _ rs]) (intro conjI xf len alt span cols)
qed

text \<open>
  Claim C5, at the input where the code departs from it. The mapper \<open>empty_selector\<close>
  is fitted successfully on the example frame, with the single width 0. The number of
  output columns is 0 and \<^verbatim>\<open>X_features_\<close> has no entry, as the claim says; but
  \<^verbatim>\<open>X_columns_\<close>, which the claim (and the docstring: an array of shape
  \<^verbatim>\<open>X_n_features_\<close>) makes the empty array of selectors, raises IndexError.
\<close>

theorem X_columns_raises_without_output_column:
  "fit empty_selector (DataFrame frame_ab) TargetNone
     = (empty_selector\<lparr>feature_widths := Present (Some [0])\<rparr>, Inr ())
   \<and> X_n_features (empty_selector\<lparr>feature_widths := Present (Some [0])\<rparr>) = Inr (Some 0)
   \<and> X_features (empty_selector\<lparr>feature_widths := Present (Some [0])\<rparr>) = Inr []
   \<and> X_columns (empty_selector\<lparr>feature_widths := Present (Some [0])\<rparr>) = Inl IndexError"
  by (simp add: fit_def empty_selector_def get_col_subset_def getitem_list_values_def
        frame_values_def frame_ab_def tuple_index_def X_n_features_def np_sum_def
        int64_def X_features_def X_columns_def)

subsection \<open>Restoring a persisted mapper (claim C10)\<close>

lemma build_features_Inr:
  "build_features mk fs = Inr fs' \<Longrightarrow>
     map fst fs' = map fst fs \<and>
     list_all2 (\<lambda>f f'. build_transformer mk (snd f) = Inr (snd f')) fs fs'"
proof (induction fs arbitrary: fs')
  case Nil
  then show ?case by simp
next
  case (Cons f fs)
  obtain columns transformers where f: "f = (columns, transformers)" by (cases f)
  from Cons.prems f obtain t rest where
    t: "build_transformer mk transformers = Inr t" and
    rest: "build_features mk fs = Inr rest" and
    fs': "fs' = (columns, t) # rest"
    by (auto split: sum.splits)
  from Cons.IH[OF rest] f t fs' show ?case by simp
qed

text \<open>
  Claim C10. \<^verbatim>\<open>__setstate__\<close> leaves the widths attribute and the target feature of
  the object as they are, so on the blank object of unpickling both are absent
  afterwards; the widths and the target feature held by the persisted state have no
  influence on the result. When it succeeds it assigns exactly \<^verbatim>\<open>features\<close> and
  \<^verbatim>\<open>sparse\<close>: the features are those of the state, selector by selector, with each
  transformer entry passed through \<^verbatim>\<open>_build_transformer\<close> (a list becomes the
  pipeline of the list, a single transformer and \<^verbatim>\<open>None\<close> stay), and the flag is the
  one of the state, or false when the state has none. When it raises, the object is
  unchanged.
\<close>

theorem setstate_assigns_features_and_sparse_only:
  "feature_widths (fst (setstate mk self state)) = feature_widths self
   \<and> y_feature (fst (setstate mk self state)) = y_feature self
   \<and> feature_widths (fst (setstate mk blank state)) = Absent
   \<and> y_feature (fst (setstate mk blank state)) = Absent
   \<and> setstate mk self (state\<lparr>st_feature_widths := ws, st_y_feature := yf\<rparr>)
       = setstate mk self state
   \<and> (\<forall>fs fs'. st_features state = Some fs \<and> build_features mk fs = Inr fs' \<longrightarrow>
         setstate mk self state
           = (self\<lparr>features := Present fs',
                    sparse := Present (case st_sparse state of None \<Rightarrow> False | Some b \<Rightarrow> b)\<rparr>,
              Inr ())
         \<and> map fst fs' = map fst fs
         \<and> list_all2 (\<lambda>f f'. build_transformer mk (snd f) = Inr (snd f')) fs fs')
   \<and> (\<forall>e. snd (setstate mk self state) = Inl e \<longrightarrow> fst (setstate mk self state) = self)
   \<and> build_transformer mk (TransformerList ts) = map_sum id Some (mk ts)
   \<and> build_transformer mk (Single t) = Inr (Some t)
   \<and> build_transformer mk NoTransformer = Inr None"
proof (intro conjI allI impI)
  show "feature_widths (fst (setstate mk self state)) = feature_widths self"
    by (simp add: setstate_def split: option.splits sum.splits)
  show "y_feature (fst (setstate mk self state)) = y_feature self"
    by (simp add: setstate_def split: option.splits sum.splits)
  show "feature_widths (fst (setstate mk blank state)) = Absent"
    by (simp add: setstate_def blank_def split: option.splits sum.splits)
  show "y_feature (fst (setstate mk blank state)) = Absent"
    by (simp add: setstate_def blank_def split: option.splits sum.splits)
  show "setstate mk self (state\<lparr>st_feature_widths := ws, st_y_feature := yf\<rparr>)
          = setstate mk self state"
    by (simp add: setstate_def split: option.splits sum.splits)
  show "build_transformer mk (TransformerList ts) = map_sum id Some (mk ts)"
    by (simp add: build_transformer_def split: sum.splits)
  show "build_transformer mk (Single t) = Inr (Some t)"
    by (simp add: build_transformer_def)
  show "build_transformer mk NoTransformer = Inr None"
    by (simp add: build_transformer_def)
next
  fix fs fs'
  assume a: "st_features state = Some fs \<and> build_features mk fs = Inr fs'"
  then show "setstate mk self state
           = (self\<lparr>features := Present fs',
                    sparse := Present (case st_sparse state of None \<Rightarrow> False | Some b \<Rightarrow> b)\<rparr>,
              Inr ())"
    by (simp add: setstate_def)
  from a have b: "build_features mk fs = Inr fs'" by simp
  from build_features_Inr[OF b] show "map fst fs' = map fst fs" by simp
  from build_features_Inr[OF b]
  show "list_all2 (\<lambda>f f'. build_transformer mk (snd f) = Inr (snd f')) fs fs'" by simp
next
  fix e
  assume "snd (setstate mk self state) = Inl e"
  then show "fst (setstate mk self state) = self"
    by (simp add: setstate_def split: option.splits sum.splits)
qed

text \<open>
  The theorem at \<open>saved_state\<close>, restored on the blank object: the widths and the
  target feature saved in the state are not restored.
\<close>

theorem setstate_assigns_features_and_sparse_only_witness:
  "st_features saved_state
     = Some [(Column ''a'', TransformerList [scaler_t]), (ColumnList [''b'', ''a''], NoTransformer)]
   \<and> build_features single_step
        [(Column ''a'', TransformerList [scaler_t]), (ColumnList [''b'', ''a''], NoTransformer)]
     = Inr [(Column ''a'', Some scaler_t), (ColumnList [''b'', ''a''], None)]
   \<and> setstate single_step blank saved_state = (restored, Inr ())
   \<and> feature_widths restored = Absent
   \<and> y_feature restored = Absent"
proof -
  have s: "st_features saved_state
     = Some [(Column ''a'', TransformerList [scaler_t]), (ColumnList [''b'', ''a''], NoTransformer)]"
    by (simp add: saved_state_def)
  have b: "build_features single_step
        [(Column ''a'', TransformerList [scaler_t]), (ColumnList [''b'', ''a''], NoTransformer)]
     = Inr [(Column ''a'', Some scaler_t), (ColumnList [''b'', ''a''], None)]"
    by (simp add: build_transformer_def single_step_def)
  have n: "st_sparse saved_state = None" by (simp add: saved_state_def)
  show ?thesis
    using s b n
      setstate_assigns_features_and_sparse_only [where mk = single_step and self = blank
        and state = saved_state]
    by (simp add: restored_def blank_def)
qed

text \<open>
  A later \<^verbatim>\<open>fit\<close> of the restored mapper records the widths and then raises
  AttributeError, at the read of the target feature that was not restored.
\<close>

lemma fit_after_setstate:
  "fit restored (DataFrame frame_ab) TargetNone
     = (restored\<lparr>features := Present [(Column ''a'', Some (scaler_t\<lparr>t_state := 1\<rparr>)),
                                       (ColumnList [''b'', ''a''], None)],
                 feature_widths := Present (Some [1, 2])\<rparr>,
        Inl AttributeError)"
  by (simp add: fit_def restored_def get_col_subset_def getitem_label_values_def
        getitem_list_values_def labelled_def frame_values_def frame_ab_def tuple_index_def
        np_array_singleton_def T_def call_fit_def call_transform_def scaler_t_def)

subsection \<open>Cumulative offsets and total width (claim C2)\<close>

lemma sum_list_take_le: "sum_list (take k ws) \<le> sum_list (ws :: nat list)"
proof -
  have "sum_list ws = sum_list (take k ws) + sum_list (drop k ws)"
    by (metis append_take_drop_id sum_list_append)
  then show ?thesis by simp
qed

lemma sum_list_take_mono:
  "i \<le> j \<Longrightarrow> sum_list (take i ws) \<le> sum_list (take j (ws :: nat list))"
proof -
  assume "i \<le> j"
  then have "take j ws = take i ws @ take (j - i) (drop i ws)"
    by (metis le_add_diff_inverse take_add)
  then show ?thesis by simp
qed

lemma prefix_sums_sorted:
  "sorted (map (\<lambda>k. int (sum_list (take k (ws :: nat list)))) [0 ..< n])"
  by (auto simp: sorted_iff_nth_mono sum_list_take_mono)

lemma prefix_sums_step:
  "i < length ws \<Longrightarrow> sum_list (take (Suc i) ws) = sum_list (take i ws) + (ws ! i :: nat)"
  by (simp add: take_Suc_conv_app_nth)

lemma int64_small: "n < 2 ^ 63 \<Longrightarrow> int64 (int n) = int n"
proof -
  assume "n < 2 ^ 63"
  then have "int n < 2 ^ 63" by (metis of_nat_less_iff of_nat_numeral of_nat_power)
  moreover have "- (2 ^ 63) \<le> int n" by simp
  ultimately show ?thesis by (simp add: int64_id)
qed

lemma fit_success_lengths:
  assumes "fit self0 X y = (self, Inr ())"
  shows "\<exists>fs ws. features self = Present fs \<and> feature_widths self = Present (Some ws)
           \<and> length ws = length fs"
proof -
  from assms obtain fs0 where fs0: "features self0 = Present fs0"
    by (cases "features self0") (auto simp: fit_Absent)
  obtain fs' r where loop: "fit_features X fs0 [] = (fs', r)"
    by (cases "fit_features X fs0 []")
  from assms fs0 loop obtain ws where r: "r = Inr ws"
    by (cases r) (auto simp: fit_loop_failure)
  from fit_loop_success[OF fs0 loop[unfolded r], of y] assms
  have w: "feature_widths self = Present (Some ws)" by simp
  from fit_features_of[OF fs0, of X y] assms loop
  have f: "features self = Present fs'" by simp
  from fit_features_Inr[OF loop[unfolded r]] have "length ws = length fs'" by auto
  with f w show ?thesis by blast
qed

text \<open>
  Claim C2, as amended. For a mapper whose widths array is set to \<open>ws\<close>,
  \<^verbatim>\<open>feature_indices_\<close> has one entry more than \<open>ws\<close> (one more than there are
  features, for a mapper that a successful fit has left), its first entry is 0, and
  entry \<open>k\<close> is the sum of the first \<open>k\<close> widths reduced to a signed 64-bit integer, so
  that each entry is the one before plus the width between them in 64-bit arithmetic;
  \<^verbatim>\<open>X_n_features_\<close> is the sum of the widths reduced in the same way. When the sum of
  the widths is below \<open>2 ^ 63\<close> nothing wraps: the offsets are the exact prefix sums,
  they are non-decreasing, consecutive offsets differ by exactly the width between
  them, and \<^verbatim>\<open>X_n_features_\<close> is the sum of the widths.
\<close>

theorem feature_indices_prefix_sums:
  assumes "feature_widths self = Present (Some ws)"
  shows "\<exists>offs. feature_indices self = Inr offs
           \<and> offs = map (\<lambda>k. int64 (int (sum_list (take k ws)))) [0 ..< length ws + 1]
           \<and> length offs = length ws + 1
           \<and> offs ! 0 = 0
           \<and> (\<forall>i < length ws. offs ! (i + 1) = int64 (offs ! i + int (ws ! i)))
           \<and> X_n_features self = Inr (Some (int64 (int (sum_list ws))))
           \<and> (sum_list ws < 2 ^ 63 \<longrightarrow>
                 offs = map (\<lambda>k. int (sum_list (take k ws))) [0 ..< length ws + 1]
                 \<and> sorted offs
                 \<and> (\<forall>i < length ws. offs ! (i + 1) - offs ! i = int (ws ! i))
                 \<and> X_n_features self = Inr (Some (int (sum_list ws))))
           \<and> (\<forall>self0 X y. fit self0 X y = (self, Inr ()) \<longrightarrow>
                 (\<exists>fs. features self = Present fs \<and> length offs = length fs + 1))"
proof -
  let ?offs = "map (\<lambda>k. int64 (int (sum_list (take k ws)))) [0 ..< length ws + 1]"
  let ?exact = "map (\<lambda>k. int (sum_list (take k ws))) [0 ..< length ws + 1]"
  have ind: "feature_indices self = Inr ?offs"
    using assms np_cumsum_widths [of ws] by (simp add: feature_indices_def del: upt_Suc)
  have len: "length ?offs = length ws + 1" by simp
  have zero: "?offs ! 0 = 0"
    by (simp add: nth_map_upt int64_zero del: upt_Suc)
  have step: "\<forall>i < length ws. ?offs ! (i + 1) = int64 (?offs ! i + int (ws ! i))"
    by (simp add: nth_map_upt prefix_sums_step int64_add_left del: upt_Suc)
  have tot: "X_n_features self = Inr (Some (int64 (int (sum_list ws))))"
    using assms by (simp add: X_n_features_def np_sum_eq)
  have small: "sum_list ws < 2 ^ 63 \<longrightarrow>
                 ?offs = ?exact \<and> sorted ?offs
                 \<and> (\<forall>i < length ws. ?offs ! (i + 1) - ?offs ! i = int (ws ! i))
                 \<and> X_n_features self = Inr (Some (int (sum_list ws)))"
  proof
    assume b: "sum_list ws < 2 ^ 63"
    have pre: "int64 (int (sum_list (take k ws))) = int (sum_list (take k ws))" for k
    proof -
      have "sum_list (take k ws) \<le> sum_list ws" by (rule sum_list_take_le)
      with b have "sum_list (take k ws) < 2 ^ 63" by simp
      then show ?thesis by (rule int64_small)
    qed
    have e: "?offs = ?exact" by (simp only: pre)
    have s: "sorted ?exact" by (rule prefix_sums_sorted)
    have d: "\<forall>i < length ws. ?exact ! (i + 1) - ?exact ! i = int (ws ! i)"
      by (simp add: nth_map_upt prefix_sums_step del: upt_Suc)
    have t: "X_n_features self = Inr (Some (int (sum_list ws)))"
      using tot b by (simp add: int64_small)
    from e s d t show "?offs = ?exact \<and> sorted ?offs
                 \<and> (\<forall>i < length ws. ?offs ! (i + 1) - ?offs ! i = int (ws ! i))
                 \<and> X_n_features self = Inr (Some (int (sum_list ws)))"
      by (simp only:) 
  qed
  have fitted: "\<forall>self0 X y. fit self0 X y = (self, Inr ()) \<longrightarrow>
                 (\<exists>fs. features self = Present fs \<and> length ?offs = length fs + 1)"
  proof (intro allI impI)
    fix self0 X y
    assume "fit self0 X y = (self, Inr ())"
    from fit_success_lengths[OF this] assms
    show "\<exists>fs. features self = Present fs \<and> length ?offs = length fs + 1" by auto
  qed
  show ?thesis
    by (rule exI[of _ ?offs]) (intro conjI ind refl len zero step tot small fitted)
qed

text \<open>
  The theorem at the mapper that the fit of \<open>unfitted_poly\<close> leaves: widths 1 and 3,
  offsets 0, 1, 4 and total 4.
\<close>

theorem feature_indices_prefix_sums_witness:
  "fit unfitted_poly (DataFrame frame_ab) TargetNone = (fitted_poly, Inr ())
   \<and> feature_widths fitted_poly = Present (Some [1, 3])
   \<and> sum_list [1, 3 :: nat] < 2 ^ 63
   \<and> feature_indices fitted_poly = Inr [0, 1, 4]
   \<and> X_n_features fitted_poly = Inr (Some 4)"
proof -
  have w: "feature_widths fitted_poly = Present (Some [1, 3])"
    by (simp add: fitted_poly_def)
  have f: "fit unfitted_poly (DataFrame frame_ab) TargetNone = (fitted_poly, Inr ())"
    by (simp add: fit_def unfitted_poly_def fitted_poly_def get_col_subset_def
          getitem_label_values_def labelled_def frame_ab_def tuple_index_def
          np_array_singleton_def T_def call_fit_def call_transform_def poly_t_def)
  have b: "sum_list [1, 3 :: nat] < 2 ^ 63" by simp
  show ?thesis
    using w f b feature_indices_prefix_sums [OF w] by (simp add: upt_rec)
qed

text \<open>
  The claim as stated fails: the fit of \<open>unfitted_wide\<close> on the frame without rows
  records the widths \<open>2 ^ 62\<close> and \<open>2 ^ 62\<close>; the last offset is \<open>- (2 ^ 63)\<close>, so
  the offsets decrease, and \<^verbatim>\<open>X_n_features_\<close> is \<open>- (2 ^ 63)\<close>, not the sum.
\<close>

theorem feature_indices_wrap_counterexample:
  "fit unfitted_wide (DataFrame frame_empty) TargetNone = (fitted_wide, Inr ())
   \<and> feature_widths fitted_wide = Present (Some [2 ^ 62, 2 ^ 62])
   \<and> feature_indices fitted_wide = Inr [0, 2 ^ 62, - (2 ^ 63)]
   \<and> \<not> sorted [0, 2 ^ 62, - (2 ^ 63) :: int]
   \<and> X_n_features fitted_wide = Inr (Some (- (2 ^ 63)))
   \<and> int (sum_list [2 ^ 62, 2 ^ 62]) \<noteq> - (2 ^ 63)"
proof -
  have f: "fit unfitted_wide (DataFrame frame_empty) TargetNone = (fitted_wide, Inr ())"
    by (simp add: fit_def unfitted_wide_def fitted_wide_def get_col_subset_def
          getitem_label_values_def labelled_def frame_empty_def tuple_index_def
          np_array_singleton_def T_def call_fit_def call_transform_def hashing_t_def)
  have w: "feature_widths fitted_wide = Present (Some [2 ^ 62, 2 ^ 62])"
    by (simp add: fitted_wide_def)
  have i: "feature_indices fitted_wide = Inr [0, 2 ^ 62, - (2 ^ 63)]"
    by (simp add: feature_indices_def w np_cumsum_def int64_def)
  have n: "X_n_features fitted_wide = Inr (Some (- (2 ^ 63)))"
    by (simp add: X_n_features_def w np_sum_def int64_def)
  have s: "\<not> sorted [0, 2 ^ 62, - (2 ^ 63) :: int]" by simp
  have d: "int (sum_list [2 ^ 62, 2 ^ 62]) \<noteq> - (2 ^ 63)" by simp
  from f w i n s d show ?thesis by (simp only: simp_thms)
qed

subsection \<open>The shape normaliser in fit and transform (claim C8)\<close>

lemma transform_feature_out:
  assumes "transform_feature X f = (f', Inr fea)"
  shows "\<exists>Xt out. get_col_subset X (fst f) = Inr Xt
           \<and> (case snd f of
                 None \<Rightarrow> out = Dense Xt
               | Some t \<Rightarrow> (\<exists>s'. t_transform t (t_state t) (Dense Xt) = (s', Inr out)))
           \<and> fea = handle_feature out"
proof (cases f)
  case (Pair columns transformers)
  from assms Pair obtain Xt where Xt: "get_col_subset X columns = Inr Xt"
    by (cases "get_col_subset X columns") auto
  show ?thesis
  proof (cases transformers)
    case None
    with assms Pair Xt show ?thesis by auto
  next
    case (Some t)
    obtain s' r where c: "t_transform t (t_state t) (Dense Xt) = (s', r)"
      by (cases "t_transform t (t_state t) (Dense Xt)")
    from assms Pair Some Xt c obtain out where r: "r = Inr out"
      by (cases r) (auto simp: call_transform_def)
    from assms Pair Some Xt c r have "fea = handle_feature out"
      by (simp add: call_transform_def)
    with Pair Some Xt c r show ?thesis by auto
  qed
qed

lemma transform_features_Inr:
  "transform_features X fs acc = (fs', Inr extracted) \<Longrightarrow>
     \<exists>ex. extracted = acc @ ex \<and> length ex = length fs \<and>
        (\<forall>i < length fs. \<exists>f'. transform_feature X (fs ! i) = (f', Inr (ex ! i)))"
proof (induction fs arbitrary: acc fs' extracted)
  case Nil
  then show ?case by simp
next
  case (Cons f fs)
  obtain f' r where tf: "transform_feature X f = (f', r)" by (cases "transform_feature X f")
  with Cons.prems obtain fea where r: "r = Inr fea" by (cases r) auto
  obtain fs1 r1 where rest: "transform_features X fs (acc @ [fea]) = (fs1, r1)"
    by (cases "transform_features X fs (acc @ [fea])")
  with Cons.prems tf r have r1: "r1 = Inr extracted" by auto
  from Cons.IH[OF rest[unfolded r1]] obtain ex1 where
    ih: "extracted = (acc @ [fea]) @ ex1" "length ex1 = length fs"
        "\<forall>i < length fs. \<exists>f'. transform_feature X (fs ! i) = (f', Inr (ex1 ! i))"
    by blast
  have "\<forall>i < length (f # fs). \<exists>f'. transform_feature X ((f # fs) ! i) = (f', Inr ((fea # ex1) ! i))"
    using ih(3) tf r by (auto simp: nth_Cons split: nat.splits)
  with ih show ?case by auto
qed

lemma transform_loop_normalised:
  assumes "transform_features X fs [] = (fs', Inr extracted)"
  shows "length extracted = length fs
       \<and> (\<forall>i < length fs. \<exists>Xt out.
             get_col_subset X (fst (fs ! i)) = Inr Xt
             \<and> (case snd (fs ! i) of
                   None \<Rightarrow> out = Dense Xt
                 | Some t \<Rightarrow> (\<exists>s'. t_transform t (t_state t) (Dense Xt) = (s', Inr out)))
             \<and> extracted ! i = handle_feature out)"
proof -
  from transform_features_Inr[OF assms]
  have l: "length extracted = length fs"
    and each: "\<forall>i < length fs. \<exists>f'. transform_feature X (fs ! i) = (f', Inr (extracted ! i))"
    by auto
  from each have "\<forall>i < length fs. \<exists>Xt out.
             get_col_subset X (fst (fs ! i)) = Inr Xt
             \<and> (case snd (fs ! i) of
                   None \<Rightarrow> out = Dense Xt
                 | Some t \<Rightarrow> (\<exists>s'. t_transform t (t_state t) (Dense Xt) = (s', Inr out)))
             \<and> extracted ! i = handle_feature out"
    using transform_feature_out by blast
  with l show ?thesis by simp
qed

text \<open>
  Claim C8, as amended; the per-feature outputs are numpy arrays and two-dimensional
  sparse matrices. A well-formed numpy array with exactly one dimension, of length
  \<open>n\<close>, is turned into the matrix of \<open>n\<close> rows and one column with the same entries;
  an array with any other number of dimensions is returned unchanged. Hence the result
  has two dimensions exactly when the argument has one or two. Whenever \<^verbatim>\<open>transform\<close>
  returns, its result is the combination of a list with one member per feature, member
  \<open>i\<close> being the normalised output of feature \<open>i\<close> (the selected subset, or what the
  transformer's \<^verbatim>\<open>transform\<close> returns for it). Whenever \<^verbatim>\<open>fit\<close> succeeds, width
  \<open>i\<close> is the entry at index 1 of the shape of the normalised fit-time output of
  feature \<open>i\<close>. An output with three or more dimensions therefore reaches the width
  measurement and the combiner as it is.
\<close>

theorem handle_feature_normalises:
  "wf_array fea \<Longrightarrow>
     (\<forall>n. shape fea = [n] \<longrightarrow>
        (\<exists>d. fea = Dense (NDArray [n] d) \<and> handle_feature fea = Dense (NDArray [n, 1] d)))
     \<and> (length (shape fea) \<noteq> 1 \<longrightarrow> handle_feature fea = fea)
     \<and> (length (shape (handle_feature fea)) = 2 \<longleftrightarrow> length (shape fea) \<in> {1, 2})
     \<and> (\<forall>fs result. features self = Present fs \<and> snd (transform self X) = Inr result \<longrightarrow>
          (\<exists>extracted. combine (sparse self) extracted = Inr result
             \<and> length extracted = length fs
             \<and> (\<forall>i < length fs. \<exists>Xt out.
                   get_col_subset X (fst (fs ! i)) = Inr Xt
                   \<and> (case snd (fs ! i) of
                         None \<Rightarrow> out = Dense Xt
                       | Some t \<Rightarrow>
                           (\<exists>s'. t_transform t (t_state t) (Dense Xt) = (s', Inr out)))
                   \<and> extracted ! i = handle_feature out)))
     \<and> (\<forall>fs self'. features self = Present fs \<and> fit self X y = (self', Inr ()) \<longrightarrow>
          (\<exists>ws. feature_widths self' = Present (Some ws)
             \<and> length ws = length fs
             \<and> (\<forall>i < length fs. \<exists>Xt out.
                   get_col_subset X (fst (fs ! i)) = Inr Xt
                   \<and> (case snd (fs ! i) of
                         None \<Rightarrow> out = Dense Xt
                       | Some t \<Rightarrow>
                           (\<exists>s1 s2. t_fit t (t_state t) (Dense Xt) = (s1, None)
                              \<and> t_transform t s1 (Dense Xt) = (s2, Inr out)))
                   \<and> tuple_index (shape (handle_feature out)) 1 = Inr (ws ! i))))"
proof (intro conjI allI impI)
  fix n
  assume wf: "wf_array fea" and s: "shape fea = [n]"
  then obtain a where a: "fea = Dense a" by (cases fea) auto
  obtain sh d where sd: "a = NDArray sh d" by (cases a)
  from wf s a sd have "sh = [n]" "length d = n" by auto
  with a sd show "\<exists>d. fea = Dense (NDArray [n] d) \<and> handle_feature fea = Dense (NDArray [n, 1] d)"
    using handle_feature_vector[of d n] by auto
next
  assume "length (shape fea) \<noteq> 1"
  then show "handle_feature fea = fea" by (rule handle_feature_other)
next
  show "length (shape (handle_feature fea)) = 2 \<longleftrightarrow> length (shape fea) \<in> {1, 2}"
    by (simp add: rank_handle_feature)
next
  fix fs result
  assume a: "features self = Present fs \<and> snd (transform self X) = Inr result"
  obtain fs' r where loop: "transform_features X fs [] = (fs', r)"
    by (cases "transform_features X fs []")
  from a transform_Present[OF _ loop, of self] obtain extracted where
    r: "r = Inr extracted" and c: "combine (sparse self) extracted = Inr result"
    by (cases r) auto
  from transform_loop_normalised[OF loop[unfolded r]] c
  show "\<exists>extracted. combine (sparse self) extracted = Inr result
             \<and> length extracted = length fs
             \<and> (\<forall>i < length fs. \<exists>Xt out.
                   get_col_subset X (fst (fs ! i)) = Inr Xt
                   \<and> (case snd (fs ! i) of
                         None \<Rightarrow> out = Dense Xt
                       | Some t \<Rightarrow>
                           (\<exists>s'. t_transform t (t_state t) (Dense Xt) = (s', Inr out)))
                   \<and> extracted ! i = handle_feature out)"
    by blast
next
  fix fs self'
  assume a: "features self = Present fs \<and> fit self X y = (self', Inr ())"
  obtain fs' r where loop: "fit_features X fs [] = (fs', r)"
    by (cases "fit_features X fs []")
  from a loop obtain ws where r: "r = Inr ws"
    by (cases r) (auto simp: fit_loop_failure)
  from a fit_loop_success[OF _ loop[unfolded r], of self y]
  have w: "feature_widths self' = Present (Some ws)" by simp
  from fit_loop_measured[OF loop[unfolded r]] w
  show "\<exists>ws. feature_widths self' = Present (Some ws)
             \<and> length ws = length fs
             \<and> (\<forall>i < length fs. \<exists>Xt out.
                   get_col_subset X (fst (fs ! i)) = Inr Xt
                   \<and> (case snd (fs ! i) of
                         None \<Rightarrow> out = Dense Xt
                       | Some t \<Rightarrow>
                           (\<exists>s1 s2. t_fit t (t_state t) (Dense Xt) = (s1, None)
                              \<and> t_transform t s1 (Dense Xt) = (s2, Inr out)))
                   \<and> tuple_index (shape (handle_feature out)) 1 = Inr (ws ! i))"
    by blast
qed

text \<open>
  The theorem at a vector of three entries, at an array of three dimensions, and at the
  mapper \<open>fitted_poly\<close>: the combiner receives column \<open>a\<close> as a matrix of one column
  next to the three columns made of column \<open>b\<close>, and the width of column \<open>a\<close> is 1.
\<close>

theorem handle_feature_normalises_witness:
  "wf_array (Dense (NDArray [3] [7, 8, 9 :: int]))
   \<and> handle_feature (Dense (NDArray [3] [7, 8, 9 :: int])) = Dense (NDArray [3, 1] [7, 8, 9])
   \<and> handle_feature (Dense (NDArray [1, 1, 1] [7 :: int])) = Dense (NDArray [1, 1, 1] [7])
   \<and> features fitted_poly
       = Present [(Column ''a'', None), (Column ''b'', Some (poly_t\<lparr>t_state := 1\<rparr>))]
   \<and> snd (transform fitted_poly (DataFrame frame_ab))
       = Inr (Dense (NDArray [2, 4] [1, 1, 3, 9, 2, 1, 4, 16]))
   \<and> combine (Present False)
        [handle_feature (Dense (NDArray [2] [1, 2])),
         handle_feature (Dense (NDArray [2, 3] [1, 3, 9, 1, 4, 16]))]
       = Inr (Dense (NDArray [2, 4] [1, 1, 3, 9, 2, 1, 4, 16 :: int]))
   \<and> fit unfitted_poly (DataFrame frame_ab) TargetNone = (fitted_poly, Inr ())
   \<and> tuple_index (shape (handle_feature (Dense (NDArray [2] [1, 2 :: int])))) 1 = Inr 1"
proof -
  have wf1: "wf_array (Dense (NDArray [3] [7, 8, 9 :: int]))" by simp
  have wf2: "wf_array (Dense (NDArray [1, 1, 1] [7 :: int]))" by simp
  have f: "features fitted_poly
       = Present [(Column ''a'', None), (Column ''b'', Some (poly_t\<lparr>t_state := 1\<rparr>))]"
    by (simp add: fitted_poly_def)
  have c: "combine (Present False)
        [handle_feature (Dense (NDArray [2] [1, 2])),
         handle_feature (Dense (NDArray [2, 3] [1, 3, 9, 1, 4, 16]))]
       = Inr (Dense (NDArray [2, 4] [1, 1, 3, 9, 2, 1, 4, 16 :: int]))"
    by (simp add: np_array_singleton_def T_def combine_def np_hstack_def atleast_1d_def
          concatenate1_def block_size_def upt_rec)
  have t: "snd (transform fitted_poly (DataFrame frame_ab))
       = Inr (Dense (NDArray [2, 4] [1, 1, 3, 9, 2, 1, 4, 16]))"
    by (simp add: transform_def fitted_poly_def poly_t_def call_transform_def
          get_col_subset_def getitem_label_values_def labelled_def frame_ab_def
          np_array_singleton_def T_def combine_def np_hstack_def atleast_1d_def
          concatenate1_def block_size_def upt_rec)
  have g: "fit unfitted_poly (DataFrame frame_ab) TargetNone = (fitted_poly, Inr ())"
    by (simp add: fit_def unfitted_poly_def fitted_poly_def get_col_subset_def
          getitem_label_values_def labelled_def frame_ab_def tuple_index_def
          np_array_singleton_def T_def call_fit_def call_transform_def poly_t_def)
  have i: "tuple_index (shape (handle_feature (Dense (NDArray [2] [1, 2 :: int])))) 1 = Inr 1"
    by (simp add: tuple_index_def np_array_singleton_def T_def)
  show ?thesis
    using wf1 f c t g i
      handle_feature_normalises [OF wf1, where self = fitted_poly and X = "DataFrame frame_ab"
        and y = TargetNone]
      handle_feature_normalises [OF wf2, where self = unfitted_poly
        and X = "DataFrame frame_ab" and y = TargetNone]
    by simp
qed

text \<open>
  The claim as stated fails: with the transformer \<open>cube_t\<close> on column \<open>a\<close>, the list
  handed to the combiner holds a well-formed array of three dimensions.
\<close>

theorem rank3_output_counterexample:
  "transform_features (DataFrame frame_ab) [(Column ''a'', Some cube_t)] []
     = ([(Column ''a'', Some cube_t)], Inr [Dense (NDArray [2, 1, 1] [1, 2])])
   \<and> wf_array (Dense (NDArray [2, 1, 1] [1, 2 :: int]))
   \<and> length (shape (Dense (NDArray [2, 1, 1] [1, 2 :: int]))) \<noteq> 2"
  by (simp add: get_col_subset_def getitem_label_values_def labelled_def frame_ab_def
        call_transform_def cube_t_def)

end
